theory Spec2Isabelle
  imports Complex_Main
begin

section \<open>CairoSVG \<open>surface.py\<close>: a shallow embedding\<close>

text \<open>
  The module turns a parsed SVG tree into calls on a cairo drawing context. The
  embedding follows \<^verbatim>\<open>cairosvg/surface.py\<close> function by function.

  \<^item> A Python \<^verbatim>\<open>str\<close> is a \<open>string\<close>: one \<open>char\<close> per code point, code points
    0 to 255 (Latin-1). The character classes below are those of Python 3 on that range.
  \<^item> A Python \<^verbatim>\<open>float\<close> is a \<open>real\<close>: a literal denotes its exact decimal value, and
    arithmetic is exact. Rounding and overflow of IEEE doubles are not represented; a
    literal \<^verbatim>\<open>inf\<close> or \<^verbatim>\<open>nan\<close> ends the run with \<open>NonFiniteFloat\<close>, which marks
    the border of the embedding and is not a Python exception.
  \<^item> An exception is a value \<open>Inl e\<close> of the result type \<open>error + 'a\<close>.
\<close>

subsection \<open>Exceptions and Python values\<close>

datatype error =
    ValueError
  | TypeError
  | ZeroDivisionError
  | NotImplementedError
  | UnboundLocalError
  | AttributeError
  | KeyError
  | IndexError
  | RecursionError
  | CairoError
  | NonFiniteFloat

text \<open>What \<^verbatim>\<open>size\<close> can return: a number, or \<^verbatim>\<open>None\<close> when the function falls off
  its end.\<close>

datatype pyval = Num real | PyNone

definition bind :: "error + 'a \<Rightarrow> ('a \<Rightarrow> error + 'b) \<Rightarrow> error + 'b" where
  "bind m f = (case m of Inl e \<Rightarrow> Inl e | Inr x \<Rightarrow> f x)"

text \<open>Arithmetic on values that may be \<^verbatim>\<open>None\<close>: an operand \<^verbatim>\<open>None\<close> raises
  \<^verbatim>\<open>TypeError\<close>, a zero divisor raises \<^verbatim>\<open>ZeroDivisionError\<close>.\<close>

definition num :: "pyval \<Rightarrow> error + real" where
  "num v = (case v of Num r \<Rightarrow> Inr r | PyNone \<Rightarrow> Inl TypeError)"

definition py_truediv :: "pyval \<Rightarrow> pyval \<Rightarrow> error + real" where
  "py_truediv a b =
     (case (a, b) of
        (Num x, Num y) \<Rightarrow> if y = 0 then Inl ZeroDivisionError else Inr (x / y)
      | _ \<Rightarrow> Inl TypeError)"

subsection \<open>String methods\<close>

definition isspace :: "char \<Rightarrow> bool" where
  "isspace c = (of_char c \<in> {9::nat, 10, 11, 12, 13, 28, 29, 30, 31, 32, 133, 160})"

text \<open>\<^verbatim>\<open>str.isdigit\<close> holds of the ten decimal digits and of the superscripts
  \<open>0xB2\<close>, \<open>0xB3\<close>, \<open>0xB9\<close>; \<^verbatim>\<open>float\<close> and \<^verbatim>\<open>int\<close> read only the decimal digits.\<close>

definition isdecimal :: "char \<Rightarrow> bool" where
  "isdecimal c = (48 \<le> (of_char c :: nat) \<and> (of_char c :: nat) \<le> 57)"

definition isdigit_char :: "char \<Rightarrow> bool" where
  "isdigit_char c = (isdecimal c \<or> of_char c \<in> {178::nat, 179, 185})"

definition isdigit :: "string \<Rightarrow> bool" where
  "isdigit s = (s \<noteq> [] \<and> list_all isdigit_char s)"

definition lower_char :: "char \<Rightarrow> char" where
  "lower_char c =
     (let n = (of_char c :: nat)
      in if (65 \<le> n \<and> n \<le> 90) \<or> (192 \<le> n \<and> n \<le> 222 \<and> n \<noteq> 215)
         then char_of (n + 32) else c)"

definition lower :: "string \<Rightarrow> string" where
  "lower s = map lower_char s"

fun startswith :: "string \<Rightarrow> string \<Rightarrow> bool" where
  "startswith s [] = True"
| "startswith [] (p # ps) = False"
| "startswith (c # s) (p # ps) = (c = p \<and> startswith s ps)"

text \<open>\<^verbatim>\<open>sub in s\<close>.\<close>

fun contains :: "string \<Rightarrow> string \<Rightarrow> bool" where
  "contains [] sub = (sub = [])"
| "contains (c # s) sub = (startswith (c # s) sub \<or> contains s sub)"

text \<open>\<^verbatim>\<open>s.lstrip(chars)\<close>, \<^verbatim>\<open>s.rstrip(chars)\<close>, \<^verbatim>\<open>s.strip(chars)\<close> and
  \<^verbatim>\<open>s.strip()\<close>.\<close>

definition lstrip_chars :: "string \<Rightarrow> string \<Rightarrow> string" where
  "lstrip_chars chars s = dropWhile (\<lambda>c. c \<in> set chars) s"

definition rstrip_chars :: "string \<Rightarrow> string \<Rightarrow> string" where
  "rstrip_chars chars s = rev (dropWhile (\<lambda>c. c \<in> set chars) (rev s))"

definition strip_chars :: "string \<Rightarrow> string \<Rightarrow> string" where
  "strip_chars chars s = rstrip_chars chars (lstrip_chars chars s)"

definition strip :: "string \<Rightarrow> string" where
  "strip s = rev (dropWhile isspace (rev (dropWhile isspace s)))"

text \<open>\<^verbatim>\<open>s.replace(old, new)\<close> for a non-empty \<open>old\<close> (every call of the module passes
  a non-empty literal): the occurrences are found from the left and do not overlap. The
  counter is the number of characters of a found occurrence still to skip.\<close>

fun replace_from :: "nat \<Rightarrow> string \<Rightarrow> string \<Rightarrow> string \<Rightarrow> string" where
  "replace_from k old new [] = []"
| "replace_from (Suc k) old new (c # s) = replace_from k old new s"
| "replace_from 0 old new (c # s) =
     (if startswith (c # s) old then new @ replace_from (length old - 1) old new s
      else c # replace_from 0 old new s)"

definition replace :: "string \<Rightarrow> string \<Rightarrow> string \<Rightarrow> string" where
  "replace old new s = replace_from 0 old new s"

text \<open>\<^verbatim>\<open>s.replace(old, new, 1)\<close>: the first occurrence only.\<close>

fun replace1 :: "string \<Rightarrow> string \<Rightarrow> string \<Rightarrow> string" where
  "replace1 old new [] = []"
| "replace1 old new (c # s) =
     (if startswith (c # s) old then new @ drop (length old) (c # s)
      else c # replace1 old new s)"

text \<open>\<^verbatim>\<open>s.split(sep, 1)\<close> as a head and an optional tail: the tail is absent when
  \<open>sep\<close> does not occur, and the list Python returns has then one element.\<close>

fun split1 :: "string \<Rightarrow> string \<Rightarrow> string \<times> string option" where
  "split1 sep [] = ([], None)"
| "split1 sep (c # s) =
     (if startswith (c # s) sep then ([], Some (drop (length sep) (c # s)))
      else (case split1 sep s of (h, t) \<Rightarrow> (c # h, t)))"

text \<open>\<^verbatim>\<open>s.split(sep, n)\<close>: at most \<open>n\<close> cuts, so at most \<open>n + 1\<close> pieces.\<close>

fun split_max :: "nat \<Rightarrow> string \<Rightarrow> string \<Rightarrow> string list" where
  "split_max 0 sep s = [s]"
| "split_max (Suc n) sep s =
     (case split1 sep s of
        (h, None) \<Rightarrow> [h]
      | (h, Some t) \<Rightarrow> h # split_max n sep t)"

text \<open>\<^verbatim>\<open>s.split(sep)\<close>: a string of length \<open>n\<close> holds at most \<open>n\<close> separators.\<close>

definition split_all :: "string \<Rightarrow> string \<Rightarrow> string list" where
  "split_all sep s = split_max (length s) sep s"

text \<open>\<^verbatim>\<open>s.split()\<close>: the maximal runs of characters that are not whitespace.\<close>

fun split_ws_from :: "string \<Rightarrow> string \<Rightarrow> string list" where
  "split_ws_from cur [] = (if cur = [] then [] else [rev cur])"
| "split_ws_from cur (c # s) =
     (if isspace c then (if cur = [] then [] else [rev cur]) @ split_ws_from [] s
      else split_ws_from (c # cur) s)"

definition split_ws :: "string \<Rightarrow> string list" where
  "split_ws s = split_ws_from [] s"

text \<open>\<^verbatim>\<open>s[i:j]\<close> for \<open>0 \<le> i \<le> j\<close>.\<close>

definition slice :: "nat \<Rightarrow> nat \<Rightarrow> string \<Rightarrow> string" where
  "slice i j s = take (j - i) (drop i s)"

subsection \<open>\<^verbatim>\<open>float(s)\<close> and \<^verbatim>\<open>int(s, 16)\<close>\<close>

text \<open>Both strip whitespace first, and of the code points up to 255 they take fewer for
  whitespace than \<^verbatim>\<open>str.strip\<close> does: the separators \<open>0x1C\<close> to \<open>0x1F\<close> are not.\<close>

definition isspace_num :: "char \<Rightarrow> bool" where
  "isspace_num c = (of_char c \<in> {9::nat, 10, 11, 12, 13, 32, 133, 160})"

definition strip_num :: "string \<Rightarrow> string" where
  "strip_num s = rev (dropWhile isspace_num (rev (dropWhile isspace_num s)))"

definition digit_val :: "char \<Rightarrow> nat" where
  "digit_val c = of_char c - 48"

text \<open>A digit part: digits, single underscores allowed between two digits.\<close>

fun valid_digitpart :: "string \<Rightarrow> bool" where
  "valid_digitpart [] = False"
| "valid_digitpart [c] = isdecimal c"
| "valid_digitpart (c # d # s) =
     (isdecimal c \<and> (if d = CHR ''_'' then valid_digitpart s else valid_digitpart (d # s)))"

fun digits_val :: "nat \<Rightarrow> string \<Rightarrow> nat" where
  "digits_val acc [] = acc"
| "digits_val acc (c # s) =
     (if c = CHR ''_'' then digits_val acc s else digits_val (10 * acc + digit_val c) s)"

definition count_digits :: "string \<Rightarrow> nat" where
  "count_digits s = length (filter isdecimal s)"

definition is_digitpart_char :: "char \<Rightarrow> bool" where
  "is_digitpart_char c = (isdecimal c \<or> c = CHR ''_'')"

definition pow10 :: "int \<Rightarrow> real" where
  "pow10 e = (if 0 \<le> e then 10 ^ nat e else 1 / 10 ^ nat (- e))"

text \<open>The exponent of a float literal: nothing, or \<^verbatim>\<open>e\<close>, an optional sign and a
  digit part.\<close>

definition float_exponent :: "string \<Rightarrow> error + int" where
  "float_exponent s =
     (case s of
        [] \<Rightarrow> Inr 0
      | c # r \<Rightarrow>
          if c = CHR ''e'' \<or> c = CHR ''E'' then
            (let (neg, d) = (case r of
                               [] \<Rightarrow> (False, [])
                             | x # r' \<Rightarrow> if x = CHR ''-'' then (True, r')
                                         else if x = CHR ''+'' then (False, r')
                                         else (False, r))
             in if valid_digitpart d
                then Inr (if neg then - int (digits_val 0 d) else int (digits_val 0 d))
                else Inl ValueError)
          else Inl ValueError)"

text \<open>An unsigned float literal:
  \<^verbatim>\<open>[digitpart] "." digitpart [exponent] | digitpart ["."] [exponent]\<close>.\<close>

definition float_unsigned :: "string \<Rightarrow> error + real" where
  "float_unsigned s =
     (let ip = takeWhile is_digitpart_char s;
          r1 = dropWhile is_digitpart_char s;
          dot = (r1 \<noteq> [] \<and> hd r1 = CHR ''.'');
          fp = (if dot then takeWhile is_digitpart_char (tl r1) else []);
          r2 = (if dot then dropWhile is_digitpart_char (tl r1) else r1)
      in if (ip = [] \<and> fp = []) \<or> (ip \<noteq> [] \<and> \<not> valid_digitpart ip)
            \<or> (fp \<noteq> [] \<and> \<not> valid_digitpart fp)
         then Inl ValueError
         else bind (float_exponent r2) (\<lambda>e.
                Inr ((real (digits_val 0 ip) + real (digits_val 0 fp) / 10 ^ count_digits fp)
                     * pow10 e)))"

definition py_float :: "string \<Rightarrow> error + real" where
  "py_float s =
     (let t = strip_num s;
          neg = (t \<noteq> [] \<and> hd t = CHR ''-'');
          r = (if t \<noteq> [] \<and> (hd t = CHR ''-'' \<or> hd t = CHR ''+'') then tl t else t)
      in if lower r \<in> {''inf'', ''infinity'', ''nan''} then Inl NonFiniteFloat
         else bind (float_unsigned r) (\<lambda>v. Inr (if neg then - v else v)))"

definition ishex :: "char \<Rightarrow> bool" where
  "ishex c = (isdecimal c \<or> (65 \<le> (of_char c :: nat) \<and> (of_char c :: nat) \<le> 70)
                         \<or> (97 \<le> (of_char c :: nat) \<and> (of_char c :: nat) \<le> 102))"

definition hex_val :: "char \<Rightarrow> nat" where
  "hex_val c = (let n = (of_char c :: nat)
                in if n \<le> 57 then n - 48 else if n \<le> 70 then n - 55 else n - 87)"

fun valid_hexpart :: "string \<Rightarrow> bool" where
  "valid_hexpart [] = False"
| "valid_hexpart [c] = ishex c"
| "valid_hexpart (c # d # s) =
     (ishex c \<and> (if d = CHR ''_'' then valid_hexpart s else valid_hexpart (d # s)))"

fun hexdigits_val :: "nat \<Rightarrow> string \<Rightarrow> nat" where
  "hexdigits_val acc [] = acc"
| "hexdigits_val acc (c # s) =
     (if c = CHR ''_'' then hexdigits_val acc s else hexdigits_val (16 * acc + hex_val c) s)"

text \<open>\<^verbatim>\<open>int(s, 16)\<close>: whitespace, a sign, an optional \<^verbatim>\<open>0x\<close> (one underscore may
  follow it), then hexadecimal digits.\<close>

definition py_int16 :: "string \<Rightarrow> error + int" where
  "py_int16 s =
     (let t = strip_num s;
          neg = (t \<noteq> [] \<and> hd t = CHR ''-'');
          r = (if t \<noteq> [] \<and> (hd t = CHR ''-'' \<or> hd t = CHR ''+'') then tl t else t);
          d = (if startswith r ''0x'' \<or> startswith r ''0X''
               then (if startswith (drop 2 r) ''_'' then drop 3 r else drop 2 r)
               else r)
      in if valid_hexpart d
         then Inr (if neg then - int (hexdigits_val 0 d) else int (hexdigits_val 0 d))
         else Inl ValueError)"

subsection \<open>\<^verbatim>\<open>normalize\<close> and \<^verbatim>\<open>size\<close>\<close>

definition DPI :: real where
  "DPI = 72"

text \<open>The values of the table \<^verbatim>\<open>UNITS\<close>: a number, \<^verbatim>\<open>None\<close> or
  \<^verbatim>\<open>NotImplemented\<close>. The table is an association list in the order the dictionary
  literal gives, which is the order \<^verbatim>\<open>UNITS.items()\<close> yields.\<close>

datatype coefficient = Coef real | CoefNone | CoefNotImplemented

definition UNITS :: "(string \<times> coefficient) list" where
  "UNITS =
     [(''mm'', Coef (1 / 25.4)),
      (''cm'', Coef (1 / 2.54)),
      (''in'', Coef 1),
      (''pt'', Coef (1 / 72)),
      (''pc'', Coef (1 / 6)),
      (''px'', CoefNone),
      (''em'', CoefNotImplemented),
      (''ex'', CoefNotImplemented),
      (''%'', CoefNotImplemented)]"

definition PATH_LETTERS :: string where
  "PATH_LETTERS = ''achlmqstvzACHLMQSTVZ''"

definition PATH_TAGS :: "string list" where
  "PATH_TAGS = [''circle'', ''line'', ''path'', ''polyline'', ''polygon'', ''rect'']"

text \<open>The loop of \<^verbatim>\<open>normalize\<close>: while two spaces stand side by side, replace every
  pair by one space.\<close>

function collapse_spaces :: "string \<Rightarrow> string" where
  "collapse_spaces s =
     (if contains s ''  '' then collapse_spaces (replace ''  '' '' '' s) else s)"
  by pat_completeness auto
termination
proof (relation "measure length")
  show "wf (measure length)" by simp
next
  fix s :: string
  assume two: "contains s ''  ''"
  have le: "length (replace_from k ''  '' '' '' t) \<le> length t" for k t
    by (induction k "''  ''" "'' ''" t rule: replace_from.induct) auto
  have "contains t ''  '' \<Longrightarrow> length (replace_from 0 ''  '' '' '' t) < length t" for t
  proof (induction t)
    case Nil
    then show ?case by simp
  next
    case (Cons c t)
    show ?case
    proof (cases "startswith (c # t) ''  ''")
      case True
      then obtain u where u: "t = CHR '' '' # u" by (cases t) auto
      have "length (replace_from 0 ''  '' '' '' u) \<le> length u" by (rule le)
      with True u show ?thesis by simp
    next
      case False
      with Cons show ?thesis by auto
    qed
  qed
  with two show "(replace ''  '' '' '' s, s) \<in> measure length"
    by (simp add: replace_def)
qed

declare collapse_spaces.simps [simp del]

definition normalize :: "string \<Rightarrow> string" where
  "normalize string =
     collapse_spaces (replace '','' '' '' (replace ''-'' '' -'' string))"

text \<open>The loop of \<^verbatim>\<open>size\<close> over the units: the first unit that occurs in the string
  decides. \<^verbatim>\<open>DPI * coefficient if coefficient else 1\<close> reads as
  \<^verbatim>\<open>(DPI * coefficient) if coefficient else 1\<close>; \<^verbatim>\<open>NotImplemented\<close> is true, and its
  product with a float raises \<^verbatim>\<open>TypeError\<close>. When no unit occurs the function ends
  without a \<^verbatim>\<open>return\<close>, so it returns \<^verbatim>\<open>None\<close>.\<close>

fun size_units :: "(string \<times> coefficient) list \<Rightarrow> string \<Rightarrow> error + pyval" where
  "size_units [] string = Inr PyNone"
| "size_units ((unit, coefficient) # rest) string =
     (if contains string unit then
        bind (py_float (strip_chars (CHR '' '' # unit) string)) (\<lambda>number.
          case coefficient of
            Coef c \<Rightarrow> Inr (Num (number * (if c \<noteq> 0 then DPI * c else 1)))
          | CoefNone \<Rightarrow> Inr (Num (number * 1))
          | CoefNotImplemented \<Rightarrow> Inl TypeError)
      else size_units rest string)"

text \<open>The test that guards \<^verbatim>\<open>float(string)\<close>:
  \<^verbatim>\<open>string.replace(".", "", 1).lstrip(" -").isdigit()\<close>.\<close>

definition numeric_test :: "string \<Rightarrow> bool" where
  "numeric_test string = isdigit (lstrip_chars '' -'' (replace1 ''.'' '''' string))"

text \<open>\<^verbatim>\<open>size(string=None)\<close>; the argument is \<open>None\<close> when the caller passes
  \<^verbatim>\<open>None\<close>, as \<^verbatim>\<open>node.get\<close> does for a missing attribute.\<close>

definition size_py :: "string option \<Rightarrow> error + pyval" where
  "size_py arg =
     (case arg of
        None \<Rightarrow> Inr (Num 0)
      | Some string \<Rightarrow>
          if string = [] then Inr (Num 0)
          else if numeric_test string then bind (py_float string) (\<lambda>r. Inr (Num r))
          else size_units UNITS string)"

subsection \<open>\<^verbatim>\<open>color\<close>\<close>

text \<open>Runs a function that may raise over a list, left to right, as a generator
  expression does.\<close>

fun map_e :: "('a \<Rightarrow> error + 'b) \<Rightarrow> 'a list \<Rightarrow> error + 'b list" where
  "map_e f [] = Inr []"
| "map_e f (x # xs) = bind (f x) (\<lambda>y. bind (map_e f xs) (\<lambda>ys. Inr (y # ys)))"

text \<open>\<^verbatim>\<open>"#" + "".join(2 * char for char in string[1:])\<close>.\<close>

definition double_chars :: "string \<Rightarrow> string" where
  "double_chars s = CHR ''#'' # concat (map (\<lambda>c. [c, c]) (drop 1 s))"

text \<open>\<^verbatim>\<open>color(string=None, opacity=1)\<close>. The table \<^verbatim>\<open>COLORS\<close> is imported from
  \<^verbatim>\<open>cairosvg/colors.py\<close> and is a parameter here. Division is Python 3's true
  division. Unpacking a tuple of the wrong length raises \<^verbatim>\<open>ValueError\<close>, as a
  malformed number does.\<close>

definition color ::
  "(string \<rightharpoonup> string) \<Rightarrow> string option \<Rightarrow> real \<Rightarrow> error + (real \<times> real \<times> real \<times> real)" where
  "color COLORS arg opacity =
     (case arg of
        None \<Rightarrow> Inr (0, 0, 0, 0)
      | Some string0 \<Rightarrow>
          if string0 = [] \<or> string0 = ''none'' then Inr (0, 0, 0, 0)
          else
            let string = lower (strip string0) in
            if startswith string ''rgba'' then
              bind (map_e py_float (split_all '','' (strip_chars '' rgba()'' string))) (\<lambda>vs.
                case vs of
                  [r, g, b, a] \<Rightarrow> Inr (r, g, b, a * opacity)
                | _ \<Rightarrow> Inl ValueError)
            else if startswith string ''rgb'' then
              bind (map_e py_float (split_all '','' (strip_chars '' rgb()'' string))) (\<lambda>vs.
                case vs of
                  [r, g, b] \<Rightarrow> Inr (r, g, b, opacity)
                | _ \<Rightarrow> Inl ValueError)
            else
              let string = (case COLORS string of Some hex \<Rightarrow> hex | None \<Rightarrow> string);
                  string = (if length string = 4 \<or> length string = 5
                            then double_chars string else string)
              in bind (if length string = 9
                       then bind (py_int16 (slice 7 9 string)) (\<lambda>a.
                              Inr (opacity * (real_of_int a / 255)))
                       else Inr opacity) (\<lambda>opacity.
                 bind (map_e py_int16 [slice 1 3 string, slice 3 5 string, slice 5 7 string])
                   (\<lambda>vs. case vs of
                      [r, g, b] \<Rightarrow>
                        Inr (real_of_int r / 255, real_of_int g / 255, real_of_int b / 255,
                             opacity)
                    | _ \<Rightarrow> Inl ValueError)))"

subsection \<open>\<^verbatim>\<open>point\<close>, \<^verbatim>\<open>quadratic_points\<close>, \<^verbatim>\<open>point_angle\<close>, \<^verbatim>\<open>rotate\<close>\<close>

text \<open>\<^verbatim>\<open>point(string)\<close>: the unpacking into three names needs exactly three pieces.\<close>

definition point :: "string \<Rightarrow> error + (pyval \<times> pyval \<times> string)" where
  "point string =
     (if string = [] then Inr (Num 0, Num 0, [])
      else case split_max 2 '' '' (strip string @ '' '') of
             [x, y, rest] \<Rightarrow>
               bind (size_py (Some x)) (\<lambda>sx.
               bind (size_py (Some y)) (\<lambda>sy. Inr (sx, sy, rest)))
           | _ \<Rightarrow> Inl ValueError)"

definition quadratic_points ::
  "real \<Rightarrow> real \<Rightarrow> real \<Rightarrow> real \<Rightarrow> real \<Rightarrow> real
   \<Rightarrow> real \<times> real \<times> real \<times> real \<times> real \<times> real" where
  "quadratic_points x1 y1 x2 y2 x3 y3 =
     (let xq1 = x2 * 2 / 3 + x1 / 3;
          yq1 = y2 * 2 / 3 + y1 / 3;
          xq2 = x2 * 2 / 3 + x3 / 3;
          yq2 = y2 * 2 / 3 + y3 / 3
      in (xq1, yq1, xq2, yq2, x3, y3))"

text \<open>\<^verbatim>\<open>atan(float("inf"))\<close> is \<open>\<pi> / 2\<close>.\<close>

definition point_angle :: "real \<Rightarrow> real \<Rightarrow> real \<Rightarrow> real \<Rightarrow> real" where
  "point_angle cx cy px py =
     (let angle = (if cx > px then pi else 0);
          angle = angle * (if cy > py then - 1 else 1)
      in angle + (if cx - px \<noteq> 0 then arctan ((cy - py) * (1 / (cx - px))) else pi / 2))"

definition rotate :: "real \<Rightarrow> real \<Rightarrow> real \<Rightarrow> real \<times> real" where
  "rotate x y angle = (x * cos angle - y * sin angle, y * cos angle + x * sin angle)"

definition radians :: "real \<Rightarrow> real" where
  "radians d = d * pi / 180"

text \<open>Cosine, sine, arc tangent and \<open>\<pi>\<close> are not computed; the three functions above
  are kept out of evaluation, and facts about them are proved.\<close>

declare point_angle_def [code drop: point_angle]


declare radians_def [code drop: radians]

subsection \<open>Nodes\<close>

text \<open>A node of the parsed tree (\<^verbatim>\<open>cairosvg/parser.py\<close>, a \<^verbatim>\<open>dict\<close> with attributes):
  its tag, its attribute dictionary, its children, its text (\<^verbatim>\<open>node.text\<close>, the
  field \<open>content\<close>) and the flag \<^verbatim>\<open>root\<close>.\<close>

datatype node =
  Node (tag: string) (attrs: "string \<rightharpoonup> string") (children: "node list")
       (content: "string option") (root: bool)

definition set_attr :: "string \<Rightarrow> string \<Rightarrow> node \<Rightarrow> node" where
  "set_attr k v n = Node (tag n) ((attrs n)(k \<mapsto> v)) (children n) (content n) (root n)"

definition del_attr :: "string \<Rightarrow> node \<Rightarrow> node" where
  "del_attr k n = Node (tag n) ((attrs n)(k := None)) (children n) (content n) (root n)"

definition set_text :: "string \<Rightarrow> node \<Rightarrow> node" where
  "set_text t n = Node (tag n) (attrs n) (children n) (Some t) (root n)"

text \<open>A truth test on \<^verbatim>\<open>node.get(k)\<close>: the attribute is present and not empty.\<close>

definition truthy :: "string option \<Rightarrow> bool" where
  "truthy v = (case v of None \<Rightarrow> False | Some s \<Rightarrow> s \<noteq> [])"

text \<open>\<^verbatim>\<open>node_format(node)\<close>. The view box is \<open>None\<close> when the attribute is missing or
  empty, and a tuple otherwise; \<^verbatim>\<open>width or viewbox[2]\<close> reads the third entry only when
  the width is zero or \<^verbatim>\<open>None\<close>, and an index out of range raises
  \<^verbatim>\<open>IndexError\<close>.\<close>

definition falsy :: "pyval \<Rightarrow> bool" where
  "falsy v = (case v of Num r \<Rightarrow> r = 0 | PyNone \<Rightarrow> True)"

definition index_or :: "pyval \<Rightarrow> pyval list \<Rightarrow> nat \<Rightarrow> error + pyval" where
  "index_or v vs i =
     (if falsy v then (if i < length vs then Inr (vs ! i) else Inl IndexError) else Inr v)"

definition node_format :: "node \<Rightarrow> error + (pyval \<times> pyval \<times> pyval list option)" where
  "node_format n =
     bind (size_py (attrs n ''width'')) (\<lambda>width.
     bind (size_py (attrs n ''height'')) (\<lambda>height.
       if truthy (attrs n ''viewBox'') then
         bind (map_e (\<lambda>pos. size_py (Some pos)) (split_ws (the (attrs n ''viewBox''))))
           (\<lambda>viewbox.
              bind (index_or width viewbox 2) (\<lambda>width.
              bind (index_or height viewbox 3) (\<lambda>height.
                Inr (width, height, Some viewbox))))
       else Inr (width, height, None)))"

subsection \<open>The drawing context\<close>

text \<open>The calls the module makes on \<^verbatim>\<open>self.context\<close>, with the arguments it passes.
  \<open>SetMatrix\<close> stands for \<^verbatim>\<open>set_matrix(cairo.Matrix(...))\<close> and \<open>SetFillRuleEvenOdd\<close>
  for \<^verbatim>\<open>set_fill_rule(cairo.FILL_RULE_EVEN_ODD)\<close>; a font slant or weight is the name
  of the cairo constant.\<close>

datatype op =
    Save
  | Restore
  | MoveTo real real
  | RelMoveTo real real
  | LineTo real real
  | RelLineTo real real
  | CurveTo real real real real real real
  | RelCurveTo real real real real real real
  | Arc real real real real real
  | ArcNegative real real real real real
  | ClosePath
  | NewSubPath
  | Rectangle real real real real
  | Translate real real
  | Scale real real
  | Rotate real
  | SetMatrix real real real real real real
  | SetFillRuleEvenOdd
  | SetSourceRGBA real real real real
  | FillPreserve
  | Stroke
  | SetLineWidth real
  | SelectFontFace string string string
  | SetFontSize real
  | ShowText string
  | TextPath string

text \<open>cairo is an external library. What the module needs of it is kept abstract: after
  the calls made so far, whether the context refuses the next call (pycairo then raises
  \<^verbatim>\<open>cairo.Error\<close>), what \<^verbatim>\<open>get_current_point()\<close> answers, and what
  \<^verbatim>\<open>text_extents\<close> answers. Every theorem below that mentions a surface holds for all
  of them.\<close>

record surface =
  rejects :: "op list \<Rightarrow> op \<Rightarrow> bool"
  current_point :: "op list \<Rightarrow> real \<times> real"
  text_extents :: "op list \<Rightarrow> string \<Rightarrow> real \<times> real \<times> real \<times> real \<times> real \<times> real"

text \<open>The state of a \<^verbatim>\<open>Surface\<close> object that drawing changes: the calls made on its
  context, in order, and \<^verbatim>\<open>self.cursor_position\<close>.\<close>

record state =
  trace :: "op list"
  cursor_position :: "real \<times> real"

definition call :: "surface \<Rightarrow> op \<Rightarrow> state \<Rightarrow> error + state" where
  "call S c st =
     (if rejects S (trace st) c then Inl CairoError
      else Inr (st\<lparr>trace := trace st @ [c]\<rparr>))"

definition get_current_point :: "surface \<Rightarrow> state \<Rightarrow> real \<times> real" where
  "get_current_point S st = current_point S (trace st)"

text \<open>Calls whose arguments come from \<^verbatim>\<open>size\<close>: pycairo raises \<^verbatim>\<open>TypeError\<close> on
  \<^verbatim>\<open>None\<close> before cairo sees the call.\<close>

definition call2 ::
  "surface \<Rightarrow> (real \<Rightarrow> real \<Rightarrow> op) \<Rightarrow> pyval \<Rightarrow> pyval \<Rightarrow> state \<Rightarrow> error + state" where
  "call2 S c a b st = bind (num a) (\<lambda>x. bind (num b) (\<lambda>y. call S (c x y) st))"

definition call6 ::
  "surface \<Rightarrow> (real \<Rightarrow> real \<Rightarrow> real \<Rightarrow> real \<Rightarrow> real \<Rightarrow> real \<Rightarrow> op)
   \<Rightarrow> pyval \<Rightarrow> pyval \<Rightarrow> pyval \<Rightarrow> pyval \<Rightarrow> pyval \<Rightarrow> pyval \<Rightarrow> state \<Rightarrow> error + state" where
  "call6 S c x1 y1 x2 y2 x3 y3 st =
     bind (num x1) (\<lambda>a1. bind (num y1) (\<lambda>b1.
     bind (num x2) (\<lambda>a2. bind (num y2) (\<lambda>b2.
     bind (num x3) (\<lambda>a3. bind (num y3) (\<lambda>b3.
       call S (c a1 b1 a2 b2 a3 b3) st))))))"

definition py_add :: "pyval \<Rightarrow> pyval \<Rightarrow> error + pyval" where
  "py_add a b = bind (num a) (\<lambda>x. bind (num b) (\<lambda>y. Inr (Num (x + y))))"

definition py_sub :: "pyval \<Rightarrow> pyval \<Rightarrow> error + pyval" where
  "py_sub a b = bind (num a) (\<lambda>x. bind (num b) (\<lambda>y. Inr (Num (x - y))))"

subsection \<open>\<^verbatim>\<open>Surface._set_context_size\<close>\<close>

text \<open>\<^verbatim>\<open>if viewbox:\<close> fails for \<^verbatim>\<open>None\<close>, for an empty string (both \<open>None\<close> here)
  and for an empty tuple. The arguments of a call are evaluated from the left, so in
  \<^verbatim>\<open>translate(-x, -y / y_ratio * x_ratio)\<close> a \<^verbatim>\<open>None\<close> coordinate raises before
  the division is tried.\<close>

definition set_context_size ::
  "surface \<Rightarrow> pyval \<Rightarrow> pyval \<Rightarrow> pyval list option \<Rightarrow> state \<Rightarrow> error + state" where
  "set_context_size S width height viewbox st =
     (case viewbox of
        None \<Rightarrow> Inr st
      | Some [] \<Rightarrow> Inr st
      | Some [x, y, x_size, y_size] \<Rightarrow>
          bind (py_truediv width x_size) (\<lambda>x_ratio.
          bind (py_truediv height y_size) (\<lambda>y_ratio.
          bind (num width) (\<lambda>width.
          bind (num height) (\<lambda>height.
          bind (num x_size) (\<lambda>x_size.
          bind (num y_size) (\<lambda>y_size.
            if x_ratio > y_ratio then
              bind (call S (Translate ((width - x_size * y_ratio) / 2) 0) st) (\<lambda>st.
              bind (call S (Scale y_ratio y_ratio) st) (\<lambda>st.
              bind (num x) (\<lambda>x.
              bind (num y) (\<lambda>y.
                if y_ratio = 0 then Inl ZeroDivisionError
                else call S (Translate (- x) (- y / y_ratio * x_ratio)) st))))
            else if x_ratio < y_ratio then
              bind (call S (Translate 0 ((height - y_size * x_ratio) / 2)) st) (\<lambda>st.
              bind (call S (Scale x_ratio x_ratio) st) (\<lambda>st.
              bind (num x) (\<lambda>x.
                if x_ratio = 0 then Inl ZeroDivisionError
                else bind (num y) (\<lambda>y.
                  call S (Translate (- x / x_ratio * y_ratio) (- y)) st))))
            else
              bind (call S (Scale x_ratio y_ratio) st) (\<lambda>st.
              bind (num x) (\<lambda>x.
              bind (num y) (\<lambda>y.
                call S (Translate (- x) (- y)) st)))))))))
      | Some _ \<Rightarrow> Inl ValueError)"

subsection \<open>The transform attribute in \<^verbatim>\<open>Surface.draw\<close>\<close>

text \<open>The loop that reads the operands:
  \<^verbatim>\<open>while transformation: value, transformation = transformation.split(" ", 1)\<close>.\<close>

function transform_values :: "string \<Rightarrow> error + pyval list" where
  "transform_values transformation =
     (if transformation = [] then Inr []
      else case split1 '' '' transformation of
             (v, None) \<Rightarrow> Inl ValueError
           | (v, Some rest) \<Rightarrow>
               (case size_py (Some v) of
                  Inl e \<Rightarrow> Inl e
                | Inr x \<Rightarrow>
                    (case transform_values rest of
                       Inl e \<Rightarrow> Inl e
                     | Inr xs \<Rightarrow> Inr (x # xs))))"
  by pat_completeness auto
termination
proof (relation "measure length")
  show "wf (measure length)" by simp
next
  fix transformation :: string and x y rest
  assume "(x, y) = split1 '' '' transformation" and "y = Some rest"
  then have s: "split1 '' '' transformation = (x, Some rest)" by simp
  have "split1 sep t = (h, Some r) \<Longrightarrow> sep \<noteq> [] \<Longrightarrow> length r < length t" for sep t h r
  proof (induction t arbitrary: h)
    case Nil
    then show ?case by simp
  next
    case (Cons c t)
    then show ?case
      by (cases sep) (auto split: if_splits prod.splits)
  qed
  with s show "(rest, transformation) \<in> measure length" by simp
qed

declare transform_values.simps [simp del]

text \<open>\<^verbatim>\<open>cairo.Matrix(*values)\<close>: up to six numbers, the missing ones default to the
  identity's.\<close>

definition matrix_op :: "real list \<Rightarrow> error + op" where
  "matrix_op vs =
     (if length vs > 6 then Inl TypeError
      else case vs @ drop (length vs) [1, 0, 0, 1, 0, 0] of
             [xx, yx, xy, yy, x0, y0] \<Rightarrow> Inr (SetMatrix xx yx xy yy x0 y0)
           | _ \<Rightarrow> Inl TypeError)"

text \<open>What is done with the operands of one transformation of type \<open>ttype\<close>.\<close>

definition apply_transform :: "surface \<Rightarrow> string \<Rightarrow> pyval list \<Rightarrow> state \<Rightarrow> error + state" where
  "apply_transform S ttype values st =
     (if ttype = ''matrix'' then
        bind (map_e num values) (\<lambda>vs. bind (matrix_op vs) (\<lambda>m. call S m st))
      else if ttype = ''rotate'' then
        (case values of
           [] \<Rightarrow> Inl IndexError
         | v # _ \<Rightarrow> bind (num v) (\<lambda>a. call S (Rotate (radians a)) st))
      else
        (let values = (if length values = 1 then values @ values else values)
         in case values of
              [a, b] \<Rightarrow> call2 S (if ttype = ''scale'' then Scale else Translate) a b st
            | _ \<Rightarrow> Inl TypeError))"

text \<open>The body of \<^verbatim>\<open>for ttype in ("scale", "translate", "matrix", "rotate")\<close>: it
  rebinds \<open>transformation\<close>, which the later rounds of the loop see; the operand loop
  leaves it empty.\<close>

fun transform_types ::
  "surface \<Rightarrow> string list \<Rightarrow> string \<Rightarrow> state \<Rightarrow> error + state" where
  "transform_types S [] transformation st = Inr st"
| "transform_types S (ttype # ttypes) transformation st =
     (if contains transformation ttype then
        (let transformation = replace ttype [] transformation;
             transformation = replace ''('' [] transformation;
             transformation = strip (normalize transformation) @ '' ''
         in bind (transform_values transformation) (\<lambda>values.
            bind (apply_transform S ttype values st) (\<lambda>st.
              transform_types S ttypes [] st)))
      else transform_types S ttypes transformation st)"

fun transform_all :: "surface \<Rightarrow> string list \<Rightarrow> state \<Rightarrow> error + state" where
  "transform_all S [] st = Inr st"
| "transform_all S (transformation # rest) st =
     bind (transform_types S [''scale'', ''translate'', ''matrix'', ''rotate''] transformation st)
       (\<lambda>st. transform_all S rest st)"

text \<open>\<^verbatim>\<open>if node.get("transform"): ...\<close>\<close>

definition transform :: "surface \<Rightarrow> node \<Rightarrow> state \<Rightarrow> error + state" where
  "transform S n st =
     (if truthy (attrs n ''transform'')
      then transform_all S (split_all '')'' (the (attrs n ''transform''))) st
      else Inr st)"

subsection \<open>\<^verbatim>\<open>Surface.path\<close>: the elliptical arc\<close>

text \<open>\<^verbatim>\<open>int(s)\<close>: whitespace, a sign, decimal digits.\<close>

definition py_int10 :: "string \<Rightarrow> error + int" where
  "py_int10 s =
     (let t = strip_num s;
          neg = (t \<noteq> [] \<and> hd t = CHR ''-'');
          d = (if t \<noteq> [] \<and> (hd t = CHR ''-'' \<or> hd t = CHR ''+'') then tl t else t)
      in if valid_digitpart d
         then Inr (if neg then - int (digits_val 0 d) else int (digits_val 0 d))
         else Inl ValueError)"

text \<open>The second point of the arc, relative to the first, after the rotation is
  cancelled and the ordinate divided by \<^verbatim>\<open>radii_ratio\<close>: the arc of the ellipse has
  become an arc of a circle of radius \<open>rx\<close>.\<close>

definition arc_reduced :: "real \<Rightarrow> real \<Rightarrow> real \<Rightarrow> real \<Rightarrow> real \<times> real" where
  "arc_reduced radii_ratio rotation x3 y3 =
     (let (xe, ye) = rotate x3 y3 (- rotation) in (xe, ye / radii_ratio))"

text \<open>The arithmetic of the branch, from \<^verbatim>\<open>xe, ye = rotate(x3, y3, -rotation)\<close> to the
  arguments of the call \<^verbatim>\<open>arc(xc, yc, rx, angle1, angle2)\<close>. The two square roots are
  taken of numbers that are not negative, since \<open>rx\<close> is at least \<open>xe / 2\<close> by then.\<close>

definition arc_call ::
  "real \<Rightarrow> real \<Rightarrow> real \<Rightarrow> bool \<Rightarrow> bool \<Rightarrow> real \<Rightarrow> real \<Rightarrow> error + op" where
  "arc_call rx radii_ratio rotation large sweep x3 y3 =
     (if radii_ratio = 0 then Inl ZeroDivisionError
      else
        let (xe, ye) = arc_reduced radii_ratio rotation x3 y3;
            angle = point_angle 0 0 xe ye;
            xe = sqrt (xe\<^sup>2 + ye\<^sup>2);
            rx = max rx (xe / 2);
            xc = xe / 2;
            yc = sqrt (rx\<^sup>2 - xc\<^sup>2);
            yc = (if \<not> (large \<noteq> sweep) then - yc else yc);
            (xe, ye) = rotate xe 0 angle;
            (xc, yc) = rotate xc yc angle;
            angle1 = point_angle xc yc 0 0;
            angle2 = point_angle xc yc xe ye
        in Inr ((if sweep then Arc else ArcNegative) xc yc rx angle1 angle2))"

text \<open>The square root is not computed either.\<close>

declare arc_call_def [code drop: arc_call]

text \<open>The variables of \<^verbatim>\<open>path\<close> that live from one round of its loop to the next. A
  variable that has not been assigned yet is \<open>None\<close>, and reading it raises
  \<^verbatim>\<open>UnboundLocalError\<close>; \<open>var_last_letter\<close> starts as Python's \<^verbatim>\<open>None\<close>.\<close>

record pathvars =
  var_string :: string
  var_letter :: "string option"
  var_last_letter :: "string option"
  var_x2 :: "pyval option"
  var_y2 :: "pyval option"
  var_x3 :: "pyval option"
  var_y3 :: "pyval option"

definition rd :: "'a option \<Rightarrow> error + 'a" where
  "rd v = (case v of None \<Rightarrow> Inl UnboundLocalError | Some x \<Rightarrow> Inr x)"

text \<open>The unpacking \<^verbatim>\<open>rotation, large, sweep, string = string.split(" ", 3)\<close>: any
  other number of pieces than four raises \<^verbatim>\<open>ValueError\<close>.\<close>

definition unpack4 :: "string list \<Rightarrow> error + (string \<times> string \<times> string \<times> string)" where
  "unpack4 pieces = (case pieces of [a, b, c, d] \<Rightarrow> Inr (a, b, c, d) | _ \<Rightarrow> Inl ValueError)"

text \<open>The branch \<^verbatim>\<open>if letter in "aA"\<close>.\<close>

definition path_arc ::
  "surface \<Rightarrow> string \<Rightarrow> pathvars \<Rightarrow> state \<Rightarrow> error + (pathvars \<times> state)" where
  "path_arc S letter v st =
     (let (x1, y1) = get_current_point S st in
      bind (point (var_string v)) (\<lambda>(rx, ry, string).
      bind (py_truediv ry rx) (\<lambda>radii_ratio.
      bind (unpack4 (split_max 3 '' '' string)) (\<lambda>(rotation, large, sweep, string).
      bind (py_float rotation) (\<lambda>rotation.
      bind (py_int10 large) (\<lambda>large.
      bind (py_int10 sweep) (\<lambda>sweep.
      bind (point string) (\<lambda>(x3, y3, string).
      bind (if letter = ''A'' then py_sub x3 (Num x1) else Inr x3) (\<lambda>x3.
      bind (if letter = ''A'' then py_sub y3 (Num y1) else Inr y3) (\<lambda>y3.
      bind (num x3) (\<lambda>x3r.
      bind (num y3) (\<lambda>y3r.
      bind (num rx) (\<lambda>rx.
      bind (arc_call rx radii_ratio (radians rotation) (large \<noteq> 0) (sweep \<noteq> 0) x3r y3r)
        (\<lambda>arc.
      bind (call S Save st) (\<lambda>st.
      bind (call S (Translate x1 y1) st) (\<lambda>st.
      bind (call S (Rotate (radians rotation)) st) (\<lambda>st.
      bind (call S (Scale 1 radii_ratio) st) (\<lambda>st.
      bind (call S arc st) (\<lambda>st.
      bind (call S Restore st) (\<lambda>st.
        Inr (v\<lparr>var_string := string, var_x3 := Some x3, var_y3 := Some y3\<rparr>,
             st)))))))))))))))))))))"

subsection \<open>\<^verbatim>\<open>Surface.path\<close>: the other commands\<close>

text \<open>What \<^verbatim>\<open>point\<close> leaves of a string is shorter than the string: the loops that call
  it until nothing is left end.\<close>

lemma split1_length:
  "split1 sep t = (h, Some r) \<Longrightarrow> length h + length sep + length r = length t"
proof (induction t arbitrary: h)
  case Nil
  then show ?case by simp
next
  case (Cons c t)
  show ?case
  proof (cases "startswith (c # t) sep")
    case True
    have "startswith u sep \<Longrightarrow> length sep \<le> length u" for u
      by (induction u sep rule: startswith.induct) auto
    with True Cons.prems show ?thesis by fastforce
  next
    case False
    with Cons show ?thesis by (auto split: prod.splits)
  qed
qed

lemma strip_length: "length (strip s) \<le> length s"
proof -
  have "length (dropWhile isspace (rev (dropWhile isspace s))) \<le> length (dropWhile isspace s)"
    using length_dropWhile_le [of isspace "rev (dropWhile isspace s)"] by simp
  also have "\<dots> \<le> length s" by (rule length_dropWhile_le)
  finally show ?thesis by (simp add: strip_def)
qed

lemma point_shrinks:
  assumes "point s = Inr (x, y, r)" and "s \<noteq> []"
  shows "length r < length s"
proof -
  from assms obtain a b where sp: "split_max 2 '' '' (strip s @ '' '') = [a, b, r]"
    by (auto simp: point_def bind_def split: list.splits sum.splits)
  then obtain t where t: "split1 '' '' (strip s @ '' '') = (a, Some t)"
    and u: "split1 '' '' t = (b, Some r)"
    by (auto simp: numeral_2_eq_2 split: prod.splits option.splits)
  from split1_length [OF t] split1_length [OF u] strip_length [of s]
  show ?thesis by simp
qed

lemma point_keeps:
  assumes "point s = Inr (x, y, r)"
  shows "length r \<le> length s"
proof (cases "s = []")
  case True
  with assms show ?thesis by (simp add: point_def)
next
  case False
  with point_shrinks [OF assms] show ?thesis by simp
qed

text \<open>The commands \<^verbatim>\<open>c\<close> and \<^verbatim>\<open>C\<close>: three points, one curve.\<close>

definition path_curve ::
  "surface \<Rightarrow> (real \<Rightarrow> real \<Rightarrow> real \<Rightarrow> real \<Rightarrow> real \<Rightarrow> real \<Rightarrow> op)
   \<Rightarrow> pathvars \<Rightarrow> state \<Rightarrow> error + (pathvars \<times> state)" where
  "path_curve S c v st =
     bind (point (var_string v)) (\<lambda>(x1, y1, string).
     bind (point string) (\<lambda>(x2, y2, string).
     bind (point string) (\<lambda>(x3, y3, string).
     bind (call6 S c x1 y1 x2 y2 x3 y3 st) (\<lambda>st.
       Inr (v\<lparr>var_string := string, var_x2 := Some x2, var_y2 := Some y2,
              var_x3 := Some x3, var_y3 := Some y3\<rparr>, st)))))"

text \<open>The commands \<^verbatim>\<open>h\<close>, \<^verbatim>\<open>H\<close>, \<^verbatim>\<open>v\<close>, \<^verbatim>\<open>V\<close>: the unpacking
  \<^verbatim>\<open>x, string = string.split(" ", 1)\<close> needs a space in the string. The flags say
  whether the operand is the abscissa and whether the command is relative.\<close>

definition path_axis ::
  "surface \<Rightarrow> bool \<Rightarrow> bool \<Rightarrow> pathvars \<Rightarrow> state \<Rightarrow> error + (pathvars \<times> state)" where
  "path_axis S horizontal relative v st =
     (case split1 '' '' (var_string v) of
        (w, None) \<Rightarrow> Inl ValueError
      | (w, Some string) \<Rightarrow>
          bind (size_py (Some w)) (\<lambda>d.
          bind (let (x, y) = get_current_point S st in
                if horizontal
                then call2 S (if relative then RelLineTo else LineTo) d
                       (Num (if relative then 0 else y)) st
                else call2 S (if relative then RelLineTo else LineTo)
                       (Num (if relative then 0 else x)) d st) (\<lambda>st.
            Inr (v\<lparr>var_string := string\<rparr>, st))))"

text \<open>The commands \<^verbatim>\<open>l\<close>, \<^verbatim>\<open>L\<close>, \<^verbatim>\<open>m\<close>, \<^verbatim>\<open>M\<close>: one point, one call.\<close>

definition path_to ::
  "surface \<Rightarrow> (real \<Rightarrow> real \<Rightarrow> op) \<Rightarrow> pathvars \<Rightarrow> state \<Rightarrow> error + (pathvars \<times> state)" where
  "path_to S c v st =
     bind (point (var_string v)) (\<lambda>(x, y, string).
     bind (call2 S c x y st) (\<lambda>st. Inr (v\<lparr>var_string := string\<rparr>, st)))"

text \<open>\<^verbatim>\<open>quadratic_points\<close> on values that may be \<^verbatim>\<open>None\<close>, and the curve drawn
  through them.\<close>

definition quadratic_curve ::
  "surface \<Rightarrow> (real \<Rightarrow> real \<Rightarrow> real \<Rightarrow> real \<Rightarrow> real \<Rightarrow> real \<Rightarrow> op)
   \<Rightarrow> real \<Rightarrow> real \<Rightarrow> pyval \<Rightarrow> pyval \<Rightarrow> pyval \<Rightarrow> pyval \<Rightarrow> state \<Rightarrow> error + state" where
  "quadratic_curve S c x1 y1 x2 y2 x3 y3 st =
     bind (num x2) (\<lambda>x2. bind (num y2) (\<lambda>y2.
     bind (num x3) (\<lambda>x3. bind (num y3) (\<lambda>y3.
       case quadratic_points x1 y1 x2 y2 x3 y3 of
         (xq1, yq1, xq2, yq2, xq3, yq3) \<Rightarrow> call S (c xq1 yq1 xq2 yq2 xq3 yq3) st))))"

text \<open>The inner loop of \<^verbatim>\<open>q\<close> and \<^verbatim>\<open>Q\<close>:
  \<^verbatim>\<open>while string: x2, y2, string = point(string); x3, y3, string = point(string); ...\<close>.
  The first control point \<open>(x1, y1)\<close> is the same in every round.\<close>

function quadratic_loop ::
  "surface \<Rightarrow> (real \<Rightarrow> real \<Rightarrow> real \<Rightarrow> real \<Rightarrow> real \<Rightarrow> real \<Rightarrow> op)
   \<Rightarrow> real \<Rightarrow> real \<Rightarrow> string \<Rightarrow> pathvars \<Rightarrow> state \<Rightarrow> error + (pathvars \<times> state)" where
  "quadratic_loop S c x1 y1 string v st =
     (if string = [] then Inr (v, st)
      else case point string of
             Inl e \<Rightarrow> Inl e
           | Inr (x2, y2, string2) \<Rightarrow>
               (case point string2 of
                  Inl e \<Rightarrow> Inl e
                | Inr (x3, y3, string3) \<Rightarrow>
                    (case quadratic_curve S c x1 y1 x2 y2 x3 y3 st of
                       Inl e \<Rightarrow> Inl e
                     | Inr st' \<Rightarrow>
                         quadratic_loop S c x1 y1 string3
                           (v\<lparr>var_x2 := Some x2, var_y2 := Some y2,
                              var_x3 := Some x3, var_y3 := Some y3\<rparr>) st')))"
  by pat_completeness auto
termination
proof (relation "measure (\<lambda>(S, c, x1, y1, string, v, st). length string)")
  show "wf (measure (\<lambda>(S, c, x1, y1, string, v, st). length string))" by simp
next
  fix S :: surface and c :: "real \<Rightarrow> real \<Rightarrow> real \<Rightarrow> real \<Rightarrow> real \<Rightarrow> real \<Rightarrow> op"
    and x1 y1 :: real and string :: string and v :: pathvars and st st' :: state
    and p x2 q y2 string2 p' x3 q' y3 string3
  assume ne: "string \<noteq> []"
    and a: "point string = Inr p" "(x2, q) = p" "(y2, string2) = q"
    and b: "point string2 = Inr p'" "(x3, q') = p'" "(y3, string3) = q'"
  from a have "point string = Inr (x2, y2, string2)" by auto
  from point_shrinks [OF this ne] have "length string2 < length string" .
  moreover from b have "point string2 = Inr (x3, y3, string3)" by auto
  from point_keeps [OF this] have "length string3 \<le> length string2" .
  ultimately show "((S, c, x1, y1, string3,
      v\<lparr>var_x2 := Some x2, var_y2 := Some y2, var_x3 := Some x3, var_y3 := Some y3\<rparr>, st'),
      (S, c, x1, y1, string, v, st)) \<in> measure (\<lambda>(S, c, x1, y1, string, v, st). length string)"
    by simp
qed

declare quadratic_loop.simps [simp del]

text \<open>The commands \<^verbatim>\<open>q\<close> and \<^verbatim>\<open>Q\<close>. The unpacking
  \<^verbatim>\<open>string, next_string = string.split("t", 1)\<close> needs the letter \<open>sep\<close> (\<^verbatim>\<open>t\<close> for
  \<^verbatim>\<open>q\<close>, \<^verbatim>\<open>T\<close> for \<^verbatim>\<open>Q\<close>) in what is left of the path: without it \<^verbatim>\<open>split\<close> returns
  one piece and the assignment raises \<^verbatim>\<open>ValueError\<close>.\<close>

definition path_quadratic ::
  "surface \<Rightarrow> bool \<Rightarrow> pathvars \<Rightarrow> state \<Rightarrow> error + (pathvars \<times> state)" where
  "path_quadratic S relative v st =
     (let sep = (if relative then ''t'' else ''T'') in
      case split1 sep (var_string v) of
        (string, None) \<Rightarrow> Inl ValueError
      | (string, Some next_string) \<Rightarrow>
          (let (x1, y1) = (if relative then (0, 0) else get_current_point S st) in
           bind (quadratic_loop S (if relative then RelCurveTo else CurveTo) x1 y1 string v st)
             (\<lambda>(v, st). Inr (v\<lparr>var_string := sep @ next_string\<rparr>, st))))"

text \<open>\<^verbatim>\<open>last_letter in "cs"\<close>: the left operand must be a string.\<close>

definition last_letter_in :: "string \<Rightarrow> pathvars \<Rightarrow> error + bool" where
  "last_letter_in letters v =
     (case var_last_letter v of
        None \<Rightarrow> Inl TypeError
      | Some l \<Rightarrow> Inr (contains letters l))"

text \<open>\<^verbatim>\<open>x3 - x2\<close> on two variables of the loop.\<close>

definition var_diff :: "pyval option \<Rightarrow> pyval option \<Rightarrow> error + pyval" where
  "var_diff a b = bind (rd a) (\<lambda>x. bind (rd b) (\<lambda>y. py_sub x y))"

text \<open>The commands \<^verbatim>\<open>s\<close> and \<^verbatim>\<open>S\<close>.\<close>

definition path_smooth ::
  "surface \<Rightarrow> bool \<Rightarrow> pathvars \<Rightarrow> state \<Rightarrow> error + (pathvars \<times> state)" where
  "path_smooth S relative v st =
     (let (x, y) = (if relative then (0, 0) else get_current_point S st);
          letters = (if relative then ''cs'' else ''CS'')
      in bind (last_letter_in letters v) (\<lambda>prev.
         bind (if prev then var_diff (var_x3 v) (var_x2 v) else Inr (Num x)) (\<lambda>x1.
         bind (last_letter_in letters v) (\<lambda>prev.
         bind (if prev then var_diff (var_y3 v) (var_y2 v) else Inr (Num y)) (\<lambda>y1.
         bind (point (var_string v)) (\<lambda>(x2, y2, string).
         bind (point string) (\<lambda>(x3, y3, string).
         bind (call6 S (if relative then RelCurveTo else CurveTo) x1 y1 x2 y2 x3 y3 st) (\<lambda>st.
           Inr (v\<lparr>var_string := string, var_x2 := Some x2, var_y2 := Some y2,
                  var_x3 := Some x3, var_y3 := Some y3\<rparr>, st)))))))))"

text \<open>The commands \<^verbatim>\<open>t\<close> and \<^verbatim>\<open>T\<close>: \<^verbatim>\<open>x2 = 2 * x1 - x2\<close> reads \<open>x2\<close>.\<close>

definition path_smooth_quadratic ::
  "surface \<Rightarrow> bool \<Rightarrow> pathvars \<Rightarrow> state \<Rightarrow> error + (pathvars \<times> state)" where
  "path_smooth_quadratic S relative v st =
     (let (x1, y1) = (if relative then (0, 0) else get_current_point S st) in
      bind (rd (var_x2 v)) (\<lambda>x2. bind (py_sub (Num (2 * x1)) x2) (\<lambda>x2.
      bind (rd (var_y2 v)) (\<lambda>y2. bind (py_sub (Num (2 * y1)) y2) (\<lambda>y2.
      bind (point (var_string v)) (\<lambda>(x3, y3, string).
      bind (quadratic_curve S (if relative then RelCurveTo else CurveTo) x1 y1 x2 y2 x3 y3 st)
        (\<lambda>st.
          Inr (v\<lparr>var_string := string, var_x2 := Some x2, var_y2 := Some y2,
                 var_x3 := Some x3, var_y3 := Some y3\<rparr>, st))))))))"

text \<open>The chain of tests on \<^verbatim>\<open>letter\<close>, in the order of the source.\<close>

definition path_branch ::
  "surface \<Rightarrow> string \<Rightarrow> pathvars \<Rightarrow> state \<Rightarrow> error + (pathvars \<times> state)" where
  "path_branch S letter v st =
     (if contains ''aA'' letter then path_arc S letter v st
      else if letter = ''c'' then path_curve S RelCurveTo v st
      else if letter = ''C'' then path_curve S CurveTo v st
      else if letter = ''h'' then path_axis S True True v st
      else if letter = ''H'' then path_axis S True False v st
      else if letter = ''l'' then path_to S RelLineTo v st
      else if letter = ''L'' then path_to S LineTo v st
      else if letter = ''m'' then path_to S RelMoveTo v st
      else if letter = ''M'' then path_to S MoveTo v st
      else if letter = ''q'' then path_quadratic S True v st
      else if letter = ''Q'' then path_quadratic S False v st
      else if letter = ''s'' then path_smooth S True v st
      else if letter = ''S'' then path_smooth S False v st
      else if letter = ''t'' then path_smooth_quadratic S True v st
      else if letter = ''T'' then path_smooth_quadratic S False v st
      else if letter = ''v'' then path_axis S False True v st
      else if letter = ''V'' then path_axis S False False v st
      else if contains ''zZ'' letter then bind (call S ClosePath st) (\<lambda>st. Inr (v, st))
      else Inl NotImplementedError)"

text \<open>One round of \<^verbatim>\<open>while string:\<close>. The first word of the string becomes the letter
  only when it occurs in \<^verbatim>\<open>PATH_LETTERS\<close>; otherwise the letter of the round before is
  kept, in the first round the letter \<^verbatim>\<open>Z\<close> that the padding loop left.\<close>

definition path_step :: "surface \<Rightarrow> pathvars \<Rightarrow> state \<Rightarrow> error + (pathvars \<times> state)" where
  "path_step S v st =
     (let string = strip (var_string v);
          v = (if contains PATH_LETTERS (fst (split1 '' '' string))
               then (case split1 '' '' (string @ '' '') of
                       (letter, rest) \<Rightarrow>
                         v\<lparr>var_letter := Some letter,
                           var_string := (case rest of Some r \<Rightarrow> r | None \<Rightarrow> [])\<rparr>)
               else v\<lparr>var_string := string\<rparr>)
      in bind (rd (var_letter v)) (\<lambda>letter.
         bind (path_branch S letter v st) (\<lambda>(v, st).
           Inr (v\<lparr>var_last_letter := Some letter, var_string := strip (var_string v)\<rparr>, st))))"

text \<open>The loop \<^verbatim>\<open>while string:\<close> may run for ever (after \<^verbatim>\<open>z\<close>, a word that is no
  letter is never consumed), so it takes fuel, one unit a round: \<open>None\<close> means that the
  fuel did not suffice.\<close>

fun path_loop :: "surface \<Rightarrow> nat \<Rightarrow> pathvars \<Rightarrow> state \<Rightarrow> (error + state) option" where
  "path_loop S 0 v st = (if var_string v = [] then Some (Inr st) else None)"
| "path_loop S (Suc n) v st =
     (if var_string v = [] then Some (Inr st)
      else case path_step S v st of
             Inl e \<Rightarrow> Some (Inl e)
           | Inr (v', st') \<Rightarrow> path_loop S n v' st')"

text \<open>The start of \<^verbatim>\<open>path\<close>: every path letter is put between two spaces, and the
  string is normalized. The loop \<^verbatim>\<open>for letter in PATH_LETTERS\<close> that does the padding
  leaves \<^verbatim>\<open>letter\<close> bound to the last of the letters, \<^verbatim>\<open>Z\<close>.\<close>

definition pad_letters :: "string \<Rightarrow> string" where
  "pad_letters string =
     fold (\<lambda>letter s. replace [letter] ('' '' @ [letter] @ '' '') s) PATH_LETTERS string"

definition path_start :: "string \<Rightarrow> pathvars" where
  "path_start d =
     \<lparr>var_string = normalize (pad_letters d), var_letter = Some [last PATH_LETTERS],
      var_last_letter = None,
      var_x2 = None, var_y2 = None, var_x3 = None, var_y3 = None\<rparr>"

definition path :: "surface \<Rightarrow> nat \<Rightarrow> node \<Rightarrow> state \<Rightarrow> (error + state) option" where
  "path S fuel n st =
     path_loop S fuel (path_start (case attrs n ''d'' of None \<Rightarrow> [] | Some d \<Rightarrow> d)) st"

subsection \<open>The shape handlers\<close>

text \<open>What drawing needs besides the node: the context, the table \<^verbatim>\<open>COLORS\<close> of
  \<^verbatim>\<open>cairosvg/colors.py\<close> and the class \<^verbatim>\<open>Tree\<close> of \<^verbatim>\<open>cairosvg/parser.py\<close>, which
  builds a tree from a reference and the node that refers to it. Neither file is part
  of the sources, so both are parameters.\<close>

record env =
  surf :: surface
  colors :: "string \<rightharpoonup> string"
  Tree :: "string option \<Rightarrow> node \<Rightarrow> error + node"

definition size_attr :: "node \<Rightarrow> string \<Rightarrow> error + pyval" where
  "size_attr n k = size_py (attrs n k)"

text \<open>\<^verbatim>\<open>size(node.get(a)) + size(node.get(b))\<close>.\<close>

definition size_sum :: "node \<Rightarrow> string \<Rightarrow> string \<Rightarrow> error + real" where
  "size_sum n a b =
     bind (size_attr n a) (\<lambda>x. bind (size_attr n b) (\<lambda>y. bind (py_add x y) num))"

definition circle :: "surface \<Rightarrow> node \<Rightarrow> state \<Rightarrow> error + state" where
  "circle S n st =
     bind (call S NewSubPath st) (\<lambda>st.
     bind (size_sum n ''x'' ''cx'') (\<lambda>x.
     bind (size_sum n ''y'' ''cy'') (\<lambda>y.
     bind (size_attr n ''r'') (\<lambda>r.
     bind (num r) (\<lambda>r. call S (Arc x y r 0 (2 * pi)) st)))))"

definition ellipse :: "surface \<Rightarrow> node \<Rightarrow> state \<Rightarrow> error + state" where
  "ellipse S n st =
     bind (size_attr n ''ry'') (\<lambda>ry.
     bind (size_attr n ''rx'') (\<lambda>rx.
     bind (py_truediv ry rx) (\<lambda>y_scale_ratio.
     bind (call S NewSubPath st) (\<lambda>st.
     bind (call S Save st) (\<lambda>st.
     bind (call S (Scale 1 y_scale_ratio) st) (\<lambda>st.
     bind (size_sum n ''x'' ''cx'') (\<lambda>x.
     bind (size_sum n ''y'' ''cy'') (\<lambda>y.
     bind (if y_scale_ratio = 0 then Inl ZeroDivisionError else Inr (y / y_scale_ratio)) (\<lambda>y.
     bind (size_attr n ''rx'') (\<lambda>rx.
     bind (num rx) (\<lambda>rx.
     bind (call S (Arc x y rx 0 (2 * pi)) st) (\<lambda>st.
       call S Restore st))))))))))))"

declare circle_def [code drop: circle]

declare ellipse_def [code drop: ellipse]

definition line :: "surface \<Rightarrow> node \<Rightarrow> state \<Rightarrow> error + state" where
  "line S n st =
     bind (size_attr n ''x1'') (\<lambda>x1.
     bind (size_attr n ''y1'') (\<lambda>y1.
     bind (size_attr n ''x2'') (\<lambda>x2.
     bind (size_attr n ''y2'') (\<lambda>y2.
     bind (call2 S MoveTo x1 y1 st) (\<lambda>st.
       call2 S LineTo x2 y2 st)))))"

text \<open>The loop of \<^verbatim>\<open>polyline\<close>: \<^verbatim>\<open>while points: x, y, points = point(points); ...\<close>.\<close>

function polyline_loop :: "surface \<Rightarrow> string \<Rightarrow> state \<Rightarrow> error + state" where
  "polyline_loop S points st =
     (if points = [] then Inr st
      else case point points of
             Inl e \<Rightarrow> Inl e
           | Inr (x, y, points') \<Rightarrow>
               (case call2 S LineTo x y st of
                  Inl e \<Rightarrow> Inl e
                | Inr st' \<Rightarrow> polyline_loop S points' st'))"
  by pat_completeness auto
termination
proof (relation "measure (\<lambda>(S, points, st). length points)")
  show "wf (measure (\<lambda>(S, points, st). length points))" by simp
next
  fix S :: surface and points :: string and st st' :: state and p x q y points'
  assume ne: "points \<noteq> []"
    and a: "point points = Inr p" "(x, q) = p" "(y, points') = q"
  from a have "point points = Inr (x, y, points')" by auto
  from point_shrinks [OF this ne]
  show "((S, points', st'), (S, points, st)) \<in> measure (\<lambda>(S, points, st). length points)"
    by simp
qed

declare polyline_loop.simps [simp del]

text \<open>\<^verbatim>\<open>normalize(None)\<close> raises \<^verbatim>\<open>AttributeError\<close>: \<^verbatim>\<open>None\<close> has no
  \<^verbatim>\<open>replace\<close>.\<close>

definition polyline :: "surface \<Rightarrow> node \<Rightarrow> state \<Rightarrow> error + state" where
  "polyline S n st =
     (case attrs n ''points'' of
        None \<Rightarrow> Inl AttributeError
      | Some p \<Rightarrow>
          (let points = normalize p in
           if points = [] then Inr st
           else bind (point points) (\<lambda>(x, y, points).
                bind (call2 S MoveTo x y st) (\<lambda>st. polyline_loop S points st))))"

definition polygon :: "surface \<Rightarrow> node \<Rightarrow> state \<Rightarrow> error + state" where
  "polygon S n st = bind (polyline S n st) (\<lambda>st. call S ClosePath st)"

definition rect :: "surface \<Rightarrow> node \<Rightarrow> state \<Rightarrow> error + state" where
  "rect S n st =
     bind (size_attr n ''x'') (\<lambda>x.
     bind (size_attr n ''y'') (\<lambda>y.
     bind (size_attr n ''width'') (\<lambda>width.
     bind (size_attr n ''height'') (\<lambda>height.
     bind (num x) (\<lambda>x. bind (num y) (\<lambda>y.
     bind (num width) (\<lambda>width. bind (num height) (\<lambda>height.
       call S (Rectangle x y width height) st))))))))"

subsection \<open>The text handlers\<close>

text \<open>\<^verbatim>\<open>str.upper\<close> on the letters \<^verbatim>\<open>a\<close> to \<^verbatim>\<open>z\<close>. It is used only to look a name up
  among cairo's constants, which are written in capital ASCII letters; no other character
  up to 255 is turned into one of those by \<^verbatim>\<open>upper\<close>, so the lookup is the same.\<close>

definition upper_char :: "char \<Rightarrow> char" where
  "upper_char c =
     (let n = (of_char c :: nat) in if 97 \<le> n \<and> n \<le> 122 then char_of (n - 32) else c)"

definition upper :: "string \<Rightarrow> string" where
  "upper s = map upper_char s"

text \<open>\<^verbatim>\<open>getattr(cairo, ("font_slant_%s" % value).upper(), fallback)\<close>; a value \<^verbatim>\<open>None\<close>
  is formatted as \<^verbatim>\<open>None\<close>. The constants are named, not valued.\<close>

definition cairo_constant :: "string \<Rightarrow> string option \<Rightarrow> string \<Rightarrow> string" where
  "cairo_constant prefix v fallback =
     (let name = upper (prefix @ (case v of None \<Rightarrow> ''None'' | Some s \<Rightarrow> s))
      in if name \<in> set [''FONT_SLANT_NORMAL'', ''FONT_SLANT_ITALIC'', ''FONT_SLANT_OBLIQUE'',
                          ''FONT_WEIGHT_NORMAL'', ''FONT_WEIGHT_BOLD'']
         then name else fallback)"

text \<open>\<^verbatim>\<open>float(node.get(k, 1))\<close>.\<close>

definition float_attr :: "node \<Rightarrow> string \<Rightarrow> error + real" where
  "float_attr n k = (case attrs n k of None \<Rightarrow> Inr 1 | Some s \<Rightarrow> py_float s)"

text \<open>\<^verbatim>\<open>tspan\<close> writes \<^verbatim>\<open>str(x + size(node.get("dx")))\<close> into the node and \<^verbatim>\<open>text\<close> reads
  it back with \<^verbatim>\<open>size\<close>. Python prints a float in positional notation when its
  magnitude is at least \<open>10\<^sup>-\<^sup>4\<close> and below \<open>10\<^sup>1\<^sup>6\<close>, and \<^verbatim>\<open>size\<close> reads that back;
  otherwise it prints an exponent, which \<^verbatim>\<open>size\<close> does not read as a number: no unit
  occurs in it, and the result is \<^verbatim>\<open>None\<close>.\<close>

definition size_of_str :: "real \<Rightarrow> pyval" where
  "size_of_str r =
     (if r = 0 \<or> (1 / 10 ^ 4 \<le> \<bar>r\<bar> \<and> \<bar>r\<bar> < 10 ^ 16) then Num r else PyNone)"

text \<open>\<^verbatim>\<open>text(node)\<close>, in the order of the source. First the node gets its default fill
  and its stripped text.\<close>

definition text_node :: "node \<Rightarrow> node" where
  "text_node n =
     (let n = (if \<not> truthy (attrs n ''fill'')
               then set_attr ''fill''
                      (if truthy (attrs n ''color'') then the (attrs n ''color'') else ''#000000'') n
               else n)
      in set_text (case content n of None \<Rightarrow> [] | Some t \<Rightarrow> if t = [] then [] else strip t) n)"

definition node_text :: "node \<Rightarrow> string" where
  "node_text n = (case content n of None \<Rightarrow> [] | Some t \<Rightarrow> t)"

text \<open>The font: \<^verbatim>\<open>select_font_face\<close> and \<^verbatim>\<open>set_font_size\<close>.\<close>

definition text_font :: "surface \<Rightarrow> node \<Rightarrow> state \<Rightarrow> error + state" where
  "text_font S n st =
     bind (size_py (case attrs n ''font-size'' of None \<Rightarrow> Some ''12pt'' | Some s \<Rightarrow> Some s))
       (\<lambda>font_size.
     bind (call S (SelectFontFace
             (case attrs n ''font-family'' of None \<Rightarrow> ''Sans'' | Some f \<Rightarrow> f)
             (cairo_constant ''font_slant_'' (attrs n ''font-style'') ''FONT_SLANT_NORMAL'')
             (cairo_constant ''font_weight_'' (attrs n ''font-weight'') ''FONT_WEIGHT_NORMAL''))
             st) (\<lambda>st.
     bind (num font_size) (\<lambda>font_size. call S (SetFontSize font_size) st)))"

text \<open>The abscissa moved by the text anchor, given \<^verbatim>\<open>width\<close> and \<^verbatim>\<open>x_bearing\<close>.\<close>

definition text_anchor :: "node \<Rightarrow> pyval \<Rightarrow> real \<Rightarrow> real \<Rightarrow> error + pyval" where
  "text_anchor n x width x_bearing =
     (if attrs n ''text-anchor'' = Some ''middle''
      then py_sub x (Num (width / 2 + x_bearing))
      else if attrs n ''text-anchor'' = Some ''end''
      then py_sub x (Num (width + x_bearing))
      else Inr x)"

text \<open>From \<^verbatim>\<open>opacity = float(node.get("opacity", 1))\<close> to the end: the text is shown,
  its outline is added to the path, the fill becomes transparent and the cursor position
  is remembered.\<close>

definition text_show :: "env \<Rightarrow> node \<Rightarrow> pyval \<Rightarrow> pyval \<Rightarrow> state \<Rightarrow> error + (node \<times> state)" where
  "text_show E n x y st =
     bind (float_attr n ''opacity'') (\<lambda>opacity.
     bind (call2 (surf E) MoveTo x y st) (\<lambda>st.
     bind (color (colors E) (attrs n ''fill'') opacity) (\<lambda>(r, g, b, a).
     bind (call (surf E) (SetSourceRGBA r g b a) st) (\<lambda>st.
     bind (call (surf E) (ShowText (node_text n)) st) (\<lambda>st.
     bind (call2 (surf E) MoveTo x y st) (\<lambda>st.
     bind (call (surf E) (TextPath (node_text n)) st) (\<lambda>st.
       Inr (set_attr ''fill'' ''#00000000'' n,
            st\<lparr>cursor_position := get_current_point (surf E) st\<rparr>))))))))"

text \<open>The arguments \<open>sx\<close> and \<open>sy\<close> are what \<^verbatim>\<open>size(node.get("x"))\<close> and
  \<^verbatim>\<open>size(node.get("y"))\<close> yield: the caller computes them, since \<^verbatim>\<open>tspan\<close> has written
  the attributes just before (the strings it writes are not kept in the node of the
  model: nothing reads them again).\<close>

definition text_at ::
  "env \<Rightarrow> error + pyval \<Rightarrow> error + pyval \<Rightarrow> node \<Rightarrow> state \<Rightarrow> error + (node \<times> state)" where
  "text_at E sx sy n st =
     (let n = text_node n in
      bind (text_font (surf E) n st) (\<lambda>st.
        case text_extents (surf E) (trace st) (node_text n) of
          (x_bearing, y_bearing, width, height, x_advance, y_advance) \<Rightarrow>
            bind sx (\<lambda>x. bind sy (\<lambda>y.
            bind (text_anchor n x width x_bearing) (\<lambda>x. text_show E n x y st)))))"

definition text_handler :: "env \<Rightarrow> node \<Rightarrow> state \<Rightarrow> error + (node \<times> state)" where
  "text_handler E n st = text_at E (size_attr n ''x'') (size_attr n ''y'') n st"

text \<open>\<^verbatim>\<open>tspan(node)\<close>. \<^verbatim>\<open>"x" in node\<close> asks whether the key is there.\<close>

definition tspan :: "env \<Rightarrow> node \<Rightarrow> state \<Rightarrow> error + (node \<times> state)" where
  "tspan E n st =
     (let (cx, cy) = cursor_position st in
      bind (case attrs n ''x'' of None \<Rightarrow> Inr (Num cx) | Some s \<Rightarrow> size_py (Some s)) (\<lambda>x.
      bind (case attrs n ''y'' of None \<Rightarrow> Inr (Num cy) | Some s \<Rightarrow> size_py (Some s)) (\<lambda>y.
      bind (size_attr n ''dx'') (\<lambda>dx.
      bind (py_add x dx) (\<lambda>x.
      bind (size_attr n ''dy'') (\<lambda>dy.
      bind (py_add y dy) (\<lambda>y.
      bind (num x) (\<lambda>x. bind (num y) (\<lambda>y.
        text_at E (Inr (size_of_str x)) (Inr (size_of_str y)) n st)))))))))"

subsection \<open>\<^verbatim>\<open>Surface.use\<close> and \<^verbatim>\<open>Surface.draw\<close>\<close>

text \<open>\<^verbatim>\<open>use(node)\<close> up to the call \<^verbatim>\<open>self.draw(tree)\<close>: it yields the tree and the
  node without its \<^verbatim>\<open>x\<close>, \<^verbatim>\<open>y\<close> and \<^verbatim>\<open>viewBox\<close>.\<close>

definition use_enter :: "env \<Rightarrow> node \<Rightarrow> state \<Rightarrow> error + (node \<times> node \<times> state)" where
  "use_enter E n st =
     bind (call (surf E) Save st) (\<lambda>st.
     bind (size_attr n ''x'') (\<lambda>x.
     bind (size_attr n ''y'') (\<lambda>y.
     bind (call2 (surf E) Translate x y st) (\<lambda>st.
       let n = del_attr ''viewBox'' (del_attr ''y'' (del_attr ''x'' n)) in
       bind (Tree E (attrs n ''{http://www.w3.org/1999/xlink}href'') n) (\<lambda>tree.
       bind (node_format tree) (\<lambda>(width, height, viewbox).
       bind (set_context_size (surf E) width height viewbox st) (\<lambda>st.
         Inr (tree, n, st))))))))"

text \<open>The end of \<^verbatim>\<open>use\<close>: \<^verbatim>\<open>restore()\<close> twice.\<close>

definition use_leave :: "surface \<Rightarrow> state \<Rightarrow> error + state" where
  "use_leave S st = bind (call S Restore st) (\<lambda>st. call S Restore st)"

text \<open>The start of \<^verbatim>\<open>draw\<close>, from \<^verbatim>\<open>save()\<close> to the default stroke width.\<close>

definition draw_enter :: "surface \<Rightarrow> node \<Rightarrow> state \<Rightarrow> error + (node \<times> state)" where
  "draw_enter S n st =
     bind (call S Save st) (\<lambda>st.
     bind (size_attr n ''x'') (\<lambda>x.
     bind (size_attr n ''y'') (\<lambda>y.
     bind (call2 S MoveTo x y st) (\<lambda>st.
     bind (transform S n st) (\<lambda>st.
       Inr (if tag n \<in> set PATH_TAGS \<and> \<not> truthy (attrs n ''stroke-width'')
            then set_attr ''stroke-width'' ''1'' n else n, st))))))"

text \<open>The middle of \<^verbatim>\<open>draw\<close>, from the opacities to \<^verbatim>\<open>stroke()\<close>.\<close>

definition paint :: "env \<Rightarrow> node \<Rightarrow> state \<Rightarrow> error + state" where
  "paint E n st =
     bind (float_attr n ''opacity'') (\<lambda>opacity.
     bind (float_attr n ''stroke-opacity'') (\<lambda>so.
     bind (float_attr n ''fill-opacity'') (\<lambda>fo.
     bind (if attrs n ''fill-rule'' = Some ''evenodd''
           then call (surf E) SetFillRuleEvenOdd st else Inr st) (\<lambda>st.
     bind (color (colors E) (attrs n ''fill'') (opacity * fo)) (\<lambda>(r, g, b, a).
     bind (call (surf E) (SetSourceRGBA r g b a) st) (\<lambda>st.
     bind (call (surf E) FillPreserve st) (\<lambda>st.
     bind (size_attr n ''stroke-width'') (\<lambda>w.
     bind (num w) (\<lambda>w.
     bind (call (surf E) (SetLineWidth w) st) (\<lambda>st.
     bind (color (colors E) (attrs n ''stroke'') (opacity * so)) (\<lambda>(r, g, b, a).
     bind (call (surf E) (SetSourceRGBA r g b a) st) (\<lambda>st.
       call (surf E) Stroke st))))))))))))"

text \<open>\<^verbatim>\<open>if hasattr(self, node.tag): getattr(self, node.tag)(node)\<close> for the tags that
  do not lead back into \<^verbatim>\<open>draw\<close>. Besides the handlers, the class has members that a
  tag can name: calling \<^verbatim>\<open>read\<close> or \<^verbatim>\<open>_set_context_size\<close> with one argument, or one of
  the four fields, raises \<^verbatim>\<open>TypeError\<close>; \<^verbatim>\<open>_create_surface\<close> raises
  \<^verbatim>\<open>NotImplementedError\<close> in this class, and \<^verbatim>\<open>__init__\<close> calls it. The names that every
  Python object has are not tags of the model. A handler returns the node, which it may
  have changed.\<close>

definition shape :: "env \<Rightarrow> nat \<Rightarrow> node \<Rightarrow> state \<Rightarrow> (error + (node \<times> state)) option" where
  "shape E fuel n st =
     (let keep = (\<lambda>r. bind r (\<lambda>st. Inr (n, st))) in
      if tag n = ''circle'' then Some (keep (circle (surf E) n st))
      else if tag n = ''ellipse'' then Some (keep (ellipse (surf E) n st))
      else if tag n = ''path'' then map_option keep (path (surf E) fuel n st)
      else if tag n = ''line'' then Some (keep (line (surf E) n st))
      else if tag n = ''polyline'' then Some (keep (polyline (surf E) n st))
      else if tag n = ''polygon'' then Some (keep (polygon (surf E) n st))
      else if tag n = ''rect'' then Some (keep (rect (surf E) n st))
      else if tag n = ''tspan'' then Some (tspan E n st)
      else if tag n = ''text'' then Some (text_handler E n st)
      else if tag n \<in> set [''read'', ''_set_context_size'', ''cairo'', ''context'',
                             ''cursor_position'', ''bytesio'']
      then Some (Inl TypeError)
      else if tag n \<in> set [''_create_surface'', ''__init__'']
      then Some (Inl NotImplementedError)
      else Some (Inr (n, st)))"

text \<open>\<^verbatim>\<open>draw(node)\<close>, with the dispatch to \<^verbatim>\<open>use\<close> (also through \<^verbatim>\<open>tref\<close>) and to
  \<^verbatim>\<open>draw\<close> itself, and the loop over the children. \<open>depth\<close> is the number of nested calls
  of \<^verbatim>\<open>draw\<close> that Python's recursion limit leaves; \<open>fuel\<close> is passed to \<^verbatim>\<open>path\<close>.\<close>

fun draw :: "env \<Rightarrow> nat \<Rightarrow> nat \<Rightarrow> node \<Rightarrow> state \<Rightarrow> (error + state) option"
  and handler :: "env \<Rightarrow> nat \<Rightarrow> nat \<Rightarrow> node \<Rightarrow> state \<Rightarrow> (error + (node \<times> state)) option"
  and draw_children :: "env \<Rightarrow> nat \<Rightarrow> nat \<Rightarrow> node list \<Rightarrow> state \<Rightarrow> (error + state) option"
  where
  "draw E fuel 0 n st = Some (Inl RecursionError)"
| "draw E fuel (Suc depth) n st =
     (if tag n = ''defs'' then Some (Inr st)
      else case draw_enter (surf E) n st of
             Inl e \<Rightarrow> Some (Inl e)
           | Inr (n1, st1) \<Rightarrow>
               (case handler E fuel depth n1 st1 of
                  None \<Rightarrow> None
                | Some (Inl e) \<Rightarrow> Some (Inl e)
                | Some (Inr (n2, st2)) \<Rightarrow>
                    (case paint E n2 st2 of
                       Inl e \<Rightarrow> Some (Inl e)
                     | Inr st3 \<Rightarrow>
                         (case draw_children E fuel depth (children n2) st3 of
                            None \<Rightarrow> None
                          | Some (Inl e) \<Rightarrow> Some (Inl e)
                          | Some (Inr st4) \<Rightarrow>
                              if root n2 then Some (Inr st4)
                              else Some (call (surf E) Restore st4)))))"
| "handler E fuel depth n st =
     (if tag n = ''use'' \<or> tag n = ''tref'' then
        (case use_enter E n st of
           Inl e \<Rightarrow> Some (Inl e)
         | Inr (tree, n1, st1) \<Rightarrow>
             (case draw E fuel depth tree st1 of
                None \<Rightarrow> None
              | Some (Inl e) \<Rightarrow> Some (Inl e)
              | Some (Inr st2) \<Rightarrow>
                  Some (bind (use_leave (surf E) st2) (\<lambda>st3. Inr (n1, st3)))))
      else if tag n = ''draw'' then
        (case draw E fuel depth n st of
           None \<Rightarrow> None
         | Some (Inl e) \<Rightarrow> Some (Inl e)
         | Some (Inr st1) \<Rightarrow> Some (Inr (n, st1)))
      else shape E fuel n st)"
| "draw_children E fuel depth [] st = Some (Inr st)"
| "draw_children E fuel depth (c # cs) st =
     (case draw E fuel depth c st of
        None \<Rightarrow> None
      | Some (Inl e) \<Rightarrow> Some (Inl e)
      | Some (Inr st1) \<Rightarrow> draw_children E fuel depth cs st1)"

subsection \<open>Predicates the properties are stated with\<close>

text \<open>Follows the specification's words, not the code: a bare numeric string is an
  optional leading minus, then digits with at most one decimal point among them.\<close>

definition bare_numeral :: "string \<Rightarrow> bool" where
  "bare_numeral s =
     (let t = (if s \<noteq> [] \<and> hd s = CHR ''-'' then tl s else s)
      in list_all (\<lambda>c. isdecimal c \<or> c = CHR ''.'') t
         \<and> list_ex isdecimal t
         \<and> length (filter (\<lambda>c. c = CHR ''.'') t) \<le> 1)"

text \<open>None of the unit names of \<^verbatim>\<open>UNITS\<close> occurs in the string.\<close>

definition no_unit :: "string \<Rightarrow> bool" where
  "no_unit s = list_all (\<lambda>u. \<not> contains s u) (map fst UNITS)"

text \<open>A context that refuses no call.\<close>

definition accepting :: "surface \<Rightarrow> bool" where
  "accepting S = (\<forall>tr c. \<not> rejects S tr c)"

text \<open>The calls a run added to the context.\<close>

definition emits :: "state \<Rightarrow> op list \<Rightarrow> state" where
  "emits st cs = st\<lparr>trace := trace st @ cs\<rparr>"

text \<open>A node that carries only a transform attribute.\<close>

definition transform_node :: "string \<Rightarrow> node" where
  "transform_node t = Node ''g'' [''transform'' \<mapsto> t] [] None False"

text \<open>A context for concrete runs: it refuses nothing, and answers the origin and empty
  extents.\<close>

definition plain_surface :: surface where
  "plain_surface =
     \<lparr>rejects = (\<lambda>tr c. False), current_point = (\<lambda>tr. (0, 0)),
      text_extents = (\<lambda>tr s. (0, 0, 0, 0, 0, 0))\<rparr>"

definition state0 :: state where
  "state0 = \<lparr>trace = [], cursor_position = (0, 0)\<rparr>"

text \<open>The value of a colour channel written with the hexadecimal digits \<open>s\<close>.\<close>

definition channel :: "string \<Rightarrow> real" where
  "channel s = real (hexdigits_val 0 (lower s)) / 255"



text \<open>A path node with the given data.\<close>

definition path_node :: "string \<Rightarrow> node" where
  "path_node d = Node ''path'' [''d'' \<mapsto> d] [] None False"


text \<open>The depth of the stack of saved states after the calls \<open>cs\<close>, started at depth
  \<open>d\<close>; \<open>None\<close> when a \<^verbatim>\<open>restore\<close> meets depth 0, that is when it undoes a
  \<^verbatim>\<open>save\<close> made before \<open>cs\<close>.\<close>

fun depth_after :: "nat \<Rightarrow> op list \<Rightarrow> nat option" where
  "depth_after d [] = Some d"
| "depth_after d (Save # cs) = depth_after (Suc d) cs"
| "depth_after d (Restore # cs) = (case d of 0 \<Rightarrow> None | Suc k \<Rightarrow> depth_after k cs)"
| "depth_after d (c # cs) = depth_after d cs"

text \<open>Only the node a traversal starts from carries the flag \<^verbatim>\<open>root\<close>: no node below
  \<open>n\<close> does.\<close>

fun rootless_below :: "node \<Rightarrow> bool" where
  "rootless_below (Node t a cs tx r) = list_all (\<lambda>c. \<not> root c \<and> rootless_below c) cs"

text \<open>What \<^verbatim>\<open>Tree\<close> builds for a reference is the root of a traversal of its own, and is
  not a \<^verbatim>\<open>defs\<close> element.\<close>

definition trees_are_roots :: "env \<Rightarrow> bool" where
  "trees_are_roots E =
     (\<forall>href p t. Tree E href p = Inr t \<longrightarrow> root t \<and> tag t \<noteq> ''defs'' \<and> rootless_below t)"

text \<open>The calls made between \<open>st\<close> and \<open>st'\<close> take the depth of the context's stack
  of saved states from \<open>d\<close> to \<open>e\<close> and never restore below depth 0.\<close>

definition moves :: "nat \<Rightarrow> nat \<Rightarrow> state \<Rightarrow> state \<Rightarrow> bool" where
  "moves d e st st' = (\<exists>cs. trace st' = trace st @ cs \<and> depth_after d cs = Some e)"

text \<open>A call that is neither \<^verbatim>\<open>save\<close> nor \<^verbatim>\<open>restore\<close>.\<close>

definition plain :: "op \<Rightarrow> bool" where
  "plain c = (c \<noteq> Save \<and> c \<noteq> Restore)"

text \<open>The handlers change the attributes and the text of a node only.\<close>

definition same_shape :: "node \<Rightarrow> node \<Rightarrow> bool" where
  "same_shape n n' = (tag n' = tag n \<and> children n' = children n \<and> root n' = root n)"

text \<open>The depth \<^verbatim>\<open>draw(n)\<close> returns at when it is entered at depth \<open>d\<close>.\<close>

definition rise :: "node \<Rightarrow> nat \<Rightarrow> nat" where
  "rise n d = (if root n \<and> tag n \<noteq> ''defs'' then Suc d else d)"

definition draw_ok :: "env \<Rightarrow> nat \<Rightarrow> nat \<Rightarrow> bool" where
  "draw_ok E fuel depth =
     (\<forall>n st st' d. draw E fuel depth n st = Some (Inr st') \<longrightarrow> rootless_below n
        \<longrightarrow> moves d (rise n d) st st')"

text \<open>Two referenced documents, an empty \<^verbatim>\<open>svg\<close> element and a
  \<^verbatim>\<open>defs\<close> element, an environment whose \<^verbatim>\<open>Tree\<close> builds the given document for
  every reference, and a \<^verbatim>\<open>use\<close> element.\<close>

definition referenced :: node where
  "referenced = Node ''svg'' Map.empty [] None True"

definition referenced_defs :: node where
  "referenced_defs = Node ''defs'' Map.empty [] None True"

definition env_of :: "node \<Rightarrow> env" where
  "env_of t = \<lparr>surf = plain_surface, colors = Map.empty, Tree = (\<lambda>href p. Inr t)\<rparr>"

definition use_node :: node where
  "use_node = Node ''use'' [''{http://www.w3.org/1999/xlink}href'' \<mapsto> ''#a''] [] None False"

section \<open>Properties\<close>

subsection \<open>The value parser\<close>

lemma size_units_none:
  "list_all (\<lambda>u. \<not> contains s u) (map fst us) \<Longrightarrow> size_units us s = Inr PyNone"
  by (induction us s rule: size_units.induct) auto

text \<open>
  C4, as the code has it. \<^verbatim>\<open>size\<close> returns 0 for a missing and for an empty argument,
  10 for \<^verbatim>\<open>"10"\<close> and 72 for \<^verbatim>\<open>"1in"\<close>. For \<^verbatim>\<open>"72pt"\<close> it returns 72, not 1: the
  number is multiplied by \<^verbatim>\<open>DPI * coefficient\<close>, that is by \<open>72 * (1 / 72)\<close>.
\<close>

theorem size_examples:
  "size_py None = Inr (Num 0) \<and> size_py (Some []) = Inr (Num 0)
   \<and> size_py (Some ''10'') = Inr (Num 10) \<and> size_py (Some ''1in'') = Inr (Num 72)
   \<and> size_py (Some ''72pt'') = Inr (Num 72)"
proof -
  have a: "size_py None = Inr (Num 0)" by (simp add: size_py_def)
  have b: "size_py (Some []) = Inr (Num 0)" by (simp add: size_py_def)
  have c: "size_py (Some ''10'') = Inr (Num 10)" by code_simp
  have d: "size_py (Some ''1in'') = Inr (Num 72)" by code_simp
  have e: "size_py (Some ''72pt'') = Inr (Num 72)" by code_simp
  from a b c d e show ?thesis by simp
qed

text \<open>C4 as stated fails: \<^verbatim>\<open>size("72pt")\<close> is not 1.\<close>

theorem size_72pt_is_not_1: "size_py (Some ''72pt'') \<noteq> Inr (Num 1)"
proof -
  have "size_py (Some ''72pt'') = Inr (Num 72)" by code_simp
  then show ?thesis by simp
qed

text \<open>
  C10, as the code has it. A non-empty string that fails the test guarding
  \<^verbatim>\<open>float(string)\<close> and holds no unit name makes \<^verbatim>\<open>size\<close> return \<^verbatim>\<open>None\<close>: no
  exception and no number.
\<close>

theorem size_falls_through:
  "s \<noteq> [] \<Longrightarrow> \<not> numeric_test s \<Longrightarrow> no_unit s \<Longrightarrow> size_py (Some s) = Inr PyNone"
  by (simp add: size_py_def no_unit_def size_units_none)

theorem size_falls_through_witness:
  "''foo'' \<noteq> [] \<and> \<not> numeric_test ''foo'' \<and> no_unit ''foo''
   \<and> size_py (Some ''foo'') = Inr PyNone"
proof -
  have a: "''foo'' \<noteq> []" by simp
  have b: "\<not> numeric_test ''foo''" by code_simp
  have c: "no_unit ''foo''" by code_simp
  from size_falls_through [OF a b c] a b c show ?thesis by simp
qed

text \<open>C10 as stated fails: \<^verbatim>\<open>"--5"\<close> is not a bare numeral and holds no unit name, yet
  it passes the code's test, and \<^verbatim>\<open>float("--5")\<close> raises \<^verbatim>\<open>ValueError\<close>.\<close>

theorem size_not_none_for_every_non_numeral:
  "\<not> (\<forall>s. s \<noteq> [] \<and> \<not> bare_numeral s \<and> no_unit s \<longrightarrow> size_py (Some s) = Inr PyNone)"
proof
  assume h: "\<forall>s. s \<noteq> [] \<and> \<not> bare_numeral s \<and> no_unit s \<longrightarrow> size_py (Some s) = Inr PyNone"
  have a: "\<not> bare_numeral ''--5''" by (simp add: bare_numeral_def isdecimal_def)
  have c: "no_unit ''--5''" by code_simp
  have d: "size_py (Some ''--5'') = Inl ValueError" by code_simp
  from h a c have "size_py (Some ''--5'') = Inr PyNone" by blast
  with d show False by simp
qed

lemma call_accepting: "accepting S \<Longrightarrow> call S c st = Inr (emits st [c])"
  by (simp add: call_def accepting_def emits_def)

lemma emits_emits: "emits (emits st a) b = emits st (a @ b)"
  by (simp add: emits_def state0_def)

lemma bind_Inr: "bind (Inr x) f = f x" by (simp add: bind_def)

subsection \<open>The viewport fitter\<close>

text \<open>
  C6. On a context that refuses no call, fitting the view box (0, 0, 200, 100) into
  100 by 100 translates by (0, 25) and scales both axes by 1/2; fitting (0, 0, 100, 200)
  translates by (25, 0) and scales both axes by 1/2. Whenever the two ratios differ (the
  view box has a non-zero width and height and the smaller ratio is not zero), the smaller
  ratio scales both axes, after a translation that centres the other axis.
\<close>

theorem viewport_fit:
  assumes S: "accepting S"
  shows "set_context_size S (Num 100) (Num 100) (Some [Num 0, Num 0, Num 200, Num 100]) st
           = Inr (emits st [Translate 0 25, Scale (1 / 2) (1 / 2), Translate 0 0])
       \<and> set_context_size S (Num 100) (Num 100) (Some [Num 0, Num 0, Num 100, Num 200]) st
           = Inr (emits st [Translate 25 0, Scale (1 / 2) (1 / 2), Translate 0 0])
       \<and> (\<forall>w h x y xs ys. xs \<noteq> 0 \<and> ys \<noteq> 0 \<and> w / xs \<noteq> h / ys \<and> min (w / xs) (h / ys) \<noteq> 0 \<longrightarrow>
            set_context_size S (Num w) (Num h) (Some [Num x, Num y, Num xs, Num ys]) st
              = Inr (emits st
                  (if w / xs > h / ys
                   then [Translate ((w - xs * (h / ys)) / 2) 0,
                         Scale (min (w / xs) (h / ys)) (min (w / xs) (h / ys)),
                         Translate (- x) (- y / (h / ys) * (w / xs))]
                   else [Translate 0 ((h - ys * (w / xs)) / 2),
                         Scale (min (w / xs) (h / ys)) (min (w / xs) (h / ys)),
                         Translate (- x / (w / xs) * (h / ys)) (- y)])))"
proof -
  have gen: "set_context_size S (Num w) (Num h) (Some [Num x, Num y, Num xs, Num ys]) st
              = Inr (emits st
                  (if w / xs > h / ys
                   then [Translate ((w - xs * (h / ys)) / 2) 0,
                         Scale (min (w / xs) (h / ys)) (min (w / xs) (h / ys)),
                         Translate (- x) (- y / (h / ys) * (w / xs))]
                   else [Translate 0 ((h - ys * (w / xs)) / 2),
                         Scale (min (w / xs) (h / ys)) (min (w / xs) (h / ys)),
                         Translate (- x / (w / xs) * (h / ys)) (- y)]))"
    if "xs \<noteq> 0" "ys \<noteq> 0" "w / xs \<noteq> h / ys" "min (w / xs) (h / ys) \<noteq> 0" for w h x y xs ys
  proof (cases "w / xs > h / ys")
    case True
    with that have "h / ys \<noteq> 0" by (simp add: min_def split: if_splits)
    with True that show ?thesis
      by (simp add: set_context_size_def py_truediv_def num_def bind_Inr
          call_accepting [OF S] emits_emits min_def)
  next
    case False
    with that have lt: "w / xs < h / ys" by simp
    with that have "w / xs \<noteq> 0" by (simp add: min_def split: if_splits)
    with False lt that show ?thesis
      by (simp add: set_context_size_def py_truediv_def num_def bind_Inr
          call_accepting [OF S] emits_emits min_def)
  qed
  have a: "set_context_size S (Num 100) (Num 100) (Some [Num 0, Num 0, Num 200, Num 100]) st
           = Inr (emits st [Translate 0 25, Scale (1 / 2) (1 / 2), Translate 0 0])"
    using gen [of 200 100 100 100 0 0] by simp
  have b: "set_context_size S (Num 100) (Num 100) (Some [Num 0, Num 0, Num 100, Num 200]) st
           = Inr (emits st [Translate 25 0, Scale (1 / 2) (1 / 2), Translate 0 0])"
    using gen [of 100 200 100 100 0 0] by simp
  from a b gen show ?thesis by blast
qed

theorem viewport_fit_witness:
  "accepting plain_surface
   \<and> set_context_size plain_surface (Num 100) (Num 100) (Some [Num 0, Num 0, Num 200, Num 100])
       state0
     = Inr \<lparr>trace = [Translate 0 25, Scale (1 / 2) (1 / 2), Translate 0 0], cursor_position = (0, 0)\<rparr>
   \<and> set_context_size plain_surface (Num 300) (Num 50) (Some [Num 1, Num 2, Num 100, Num 100])
       state0
     = Inr \<lparr>trace = [Translate 125 0, Scale (1 / 2) (1 / 2), Translate (- 1) (- 12)],
            cursor_position = (0, 0)\<rparr>"
proof -
  have S: "accepting plain_surface" by (simp add: accepting_def plain_surface_def)
  have h: "(100::real) \<noteq> 0 \<and> (100::real) \<noteq> 0 \<and> (300::real) / 100 \<noteq> 50 / 100
      \<and> min ((300::real) / 100) (50 / 100) \<noteq> 0" by simp
  from viewport_fit [OF S, of "state0"] h
  have "set_context_size plain_surface (Num 300) (Num 50) (Some [Num 1, Num 2, Num 100, Num 100])
       state0
     = Inr (emits state0
         (if (300::real) / 100 > 50 / 100
                   then [Translate ((300 - 100 * (50 / 100)) / 2) 0,
                         Scale (min (300 / 100) (50 / 100)) (min (300 / 100) (50 / 100)),
                         Translate (- 1) (- 2 / (50 / 100) * (300 / 100))]
                   else [Translate 0 ((50 - 100 * (300 / 100)) / 2),
                         Scale (min (300 / 100) (50 / 100)) (min (300 / 100) (50 / 100)),
                         Translate (- 1 / (300 / 100) * (50 / 100)) (- 2)]))"
    by blast
  then have g: "set_context_size plain_surface (Num 300) (Num 50) (Some [Num 1, Num 2, Num 100, Num 100])
       state0
     = Inr \<lparr>trace = [Translate 125 0, Scale (1 / 2) (1 / 2), Translate (- 1) (- 12)],
            cursor_position = (0, 0)\<rparr>"
    by (simp add: emits_def state0_def)
  from viewport_fit [OF S, of "state0"]
  have "set_context_size plain_surface (Num 100) (Num 100) (Some [Num 0, Num 0, Num 200, Num 100])
       state0
     = Inr \<lparr>trace = [Translate 0 25, Scale (1 / 2) (1 / 2), Translate 0 0], cursor_position = (0, 0)\<rparr>"
    by (simp add: emits_def state0_def)
  with S g show ?thesis by simp
qed

subsection \<open>The transform resolver\<close>

lemma split_translate_1: "split_all '')'' ''translate(10)'' = [''translate(10'', []]" by code_simp
lemma split_translate_2: "split_all '')'' ''translate(10,10)'' = [''translate(10,10'', []]" by code_simp
lemma operands_translate_1: "strip (normalize (replace ''('' [] (replace ''translate'' [] ''translate(10''))) @ '' '' = ''10 ''" by code_simp
lemma operands_translate_2: "strip (normalize (replace ''('' [] (replace ''translate'' [] ''translate(10,10''))) @ '' '' = ''10 10 ''" by code_simp
lemma values_translate_1: "transform_values ''10 '' = Inr [Num 10]" by code_simp
lemma values_translate_2: "transform_values ''10 10 '' = Inr [Num 10, Num 10]" by code_simp
lemma types_translate_1: "\<not> contains ''translate(10'' ''scale''" "contains ''translate(10'' ''translate''" by code_simp+
lemma types_translate_2: "\<not> contains ''translate(10,10'' ''scale''" "contains ''translate(10,10'' ''translate''" by code_simp+
lemma types_empty: "\<not> contains [] ''scale''" "\<not> contains [] ''translate''" "\<not> contains [] ''matrix''" "\<not> contains [] ''rotate''" by code_simp+

lemma transform_translate_1: "transform S (transform_node ''translate(10)'') st = call S (Translate 10 10) st"
  unfolding transform_def transform_node_def
  by (simp add: truthy_def split_translate_1 del: contains.simps) 
   (simp add: types_translate_1 types_empty operands_translate_1 values_translate_1 Let_def bind_def apply_transform_def call2_def num_def split: sum.splits del: contains.simps)

lemma transform_translate_2: "transform S (transform_node ''translate(10,10)'') st = call S (Translate 10 10) st"
  unfolding transform_def transform_node_def
  by (simp add: truthy_def split_translate_2 del: contains.simps) 
   (simp add: types_translate_2 types_empty operands_translate_2 values_translate_2 Let_def bind_def apply_transform_def call2_def num_def split: sum.splits del: contains.simps)

text \<open>
  C7. From any state of any context, the attributes \<^verbatim>\<open>translate(10)\<close> and
  \<^verbatim>\<open>translate(10,10)\<close> both make exactly the one call \<^verbatim>\<open>translate(10, 10)\<close>, so they
  have the same outcome and the context ends with the same transform; on a context that
  accepts it, the call is appended to the calls made so far. In general one operand
  \<open>x\<close> of a translate or a scale is used for both axes: the call is \<^verbatim>\<open>translate(x, x)\<close>
  or \<^verbatim>\<open>scale(x, x)\<close>.
\<close>

theorem translate_single_operand:
  "transform S (transform_node ''translate(10)'') st = call S (Translate 10 10) st
   \<and> transform S (transform_node ''translate(10,10)'') st = call S (Translate 10 10) st
   \<and> transform S (transform_node ''translate(10)'') st
       = transform S (transform_node ''translate(10,10)'') st
   \<and> transform plain_surface (transform_node ''translate(10)'') state0
       = Inr (emits state0 [Translate 10 10])
   \<and> apply_transform S ''translate'' [Num x] st = call S (Translate x x) st
   \<and> apply_transform S ''scale'' [Num x] st = call S (Scale x x) st
   \<and> apply_transform S ''translate'' [v] st = apply_transform S ''translate'' [v, v] st
   \<and> apply_transform S ''scale'' [v] st = apply_transform S ''scale'' [v, v] st"
  by (simp add: transform_translate_1 transform_translate_2 apply_transform_def call2_def
      call_def num_def bind_def emits_def plain_surface_def)

subsection \<open>The colour parser\<close>

lemma ishex_facts:
  assumes "ishex c"
  shows "\<not> isspace c" "\<not> isspace_num c" "c \<noteq> CHR ''-''" "c \<noteq> CHR ''+''" "c \<noteq> CHR ''_''"
    "c \<noteq> CHR ''x''" "c \<noteq> CHR ''X''" "c \<noteq> CHR ''#''"
  using assms by (auto simp: ishex_def isdecimal_def isspace_def isspace_num_def)

lemma ishex_lower: "ishex c \<Longrightarrow> ishex (lower_char c)"
  by (auto simp: ishex_def isdecimal_def lower_char_def Let_def)

lemma py_int16_empty: "py_int16 [] = Inl ValueError"
  by (simp add: py_int16_def strip_num_def)

lemma py_int16_one: "ishex a \<Longrightarrow> py_int16 [a] = Inr (int (hexdigits_val 0 [a]))"
  by (simp add: py_int16_def strip_num_def ishex_facts Let_def)

lemma py_int16_two:
  "ishex a \<Longrightarrow> ishex b \<Longrightarrow> py_int16 [a, b] = Inr (int (hexdigits_val 0 [a, b]))"
  by (simp add: py_int16_def strip_num_def ishex_facts Let_def)

lemma py_int16_take2:
  assumes "list_all ishex t"
  shows "py_int16 (take 2 t) = (if t = [] then Inl ValueError else Inr (int (hexdigits_val 0 (take 2 t))))"
proof (cases t)
  case Nil
  then show ?thesis by (simp add: py_int16_empty)
next
  case (Cons a u)
  show ?thesis
  proof (cases u)
    case Nil
    with Cons assms show ?thesis using py_int16_one [of a] by simp
  next
    case (Cons b v)
    with \<open>t = a # u\<close> assms show ?thesis using py_int16_two [of a b] by (simp add: numeral_2_eq_2)
  qed
qed

lemma strip_hex:
  assumes "list_all ishex ds"
  shows "strip (CHR ''#'' # ds) = CHR ''#'' # ds"
proof -
  have a: "\<not> isspace (CHR ''#'')" by (simp add: isspace_def)
  have "dropWhile isspace (rev ds @ [CHR ''#'']) = rev ds @ [CHR ''#'']"
  proof (cases "rev ds")
    case Nil
    with a show ?thesis by simp
  next
    case (Cons c u)
    then have "c \<in> set ds" by (metis list.set_intros(1) set_rev)
    with assms have "ishex c" by (simp add: list_all_iff)
    with Cons show ?thesis by (simp add: ishex_facts)
  qed
  with a show ?thesis by (simp add: strip_def)
qed

text \<open>
  C9, as the code has it. Take \<^verbatim>\<open>#\<close> followed by hexadecimal digits, not a key of
  \<^verbatim>\<open>COLORS\<close>. With fewer than three digits (length 1, 2 or 3) \<^verbatim>\<open>color\<close> raises
  \<^verbatim>\<open>ValueError\<close>, since a channel is read from an empty slice. With five, seven or more
  than eight digits (length 6, 8, 10 and more) it raises nothing: the channels are read
  from the positions 1-2, 3-4 and 5-6, a lone fifth digit is a channel of its own, and
  whatever follows the sixth digit is ignored.
\<close>

theorem color_hex_lengths:
  assumes hex: "list_all ishex ds" and name: "COLORS (lower (CHR ''#'' # ds)) = None"
  shows "(length ds < 3 \<longrightarrow> color COLORS (Some (CHR ''#'' # ds)) opacity = Inl ValueError)
       \<and> (length ds = 5 \<or> length ds = 7 \<or> 9 \<le> length ds \<longrightarrow>
            color COLORS (Some (CHR ''#'' # ds)) opacity
              = Inr (channel (take 2 ds), channel (take 2 (drop 2 ds)),
                     channel (take 2 (drop 4 ds)), opacity))"
proof -
  define ls where "ls = lower ds"
  have lhex: "list_all ishex ls"
    using hex by (simp add: ls_def lower_def list_all_iff ishex_lower)
  have len: "length ls = length ds" by (simp add: ls_def lower_def)
  have low: "lower (strip (CHR ''#'' # ds)) = CHR ''#'' # ls"
    by (simp add: strip_hex [OF hex] lower_def ls_def lower_char_def)
  have name': "COLORS (CHR ''#'' # ls) = None"
    using name by (simp add: lower_def ls_def lower_char_def)
  have none: "CHR ''#'' # ds \<noteq> ''none''" by simp
  have s1: "slice (Suc 0) 3 (CHR ''#'' # ls) = take 2 ls" by (simp add: slice_def)
  have s2: "slice 3 5 (CHR ''#'' # ls) = take 2 (drop 2 ls)" by (simp add: slice_def)
  have s3: "slice 5 7 (CHR ''#'' # ls) = take 2 (drop 4 ls)" by (simp add: slice_def)
  have d2: "list_all ishex (drop 2 ls)" and d4: "list_all ishex (drop 4 ls)"
    using lhex by (auto simp: list_all_iff dest: in_set_dropD)
  have tk: "take 2 ls = lower (take 2 ds)" "take 2 (drop 2 ls) = lower (take 2 (drop 2 ds))"
    "take 2 (drop 4 ls) = lower (take 2 (drop 4 ds))"
    by (simp_all add: ls_def lower_def take_map drop_map)
  have body: "color COLORS (Some (CHR ''#'' # ds)) opacity
      = bind (map_e py_int16 [take 2 ls, take 2 (drop 2 ls), take 2 (drop 4 ls)])
          (\<lambda>vs. case vs of
             [r, g, b] \<Rightarrow> Inr (real_of_int r / 255, real_of_int g / 255, real_of_int b / 255, opacity)
           | _ \<Rightarrow> Inl ValueError)"
    if "length ds \<noteq> 3" "length ds \<noteq> 4" "length ds \<noteq> 8"
    using that unfolding color_def
    by (simp add: low name' Let_def s1 s2 s3 len bind_Inr del: map_e.simps)
  have short: "color COLORS (Some (CHR ''#'' # ds)) opacity = Inl ValueError" if "length ds < 3"
  proof -
    from that have e: "drop 2 ls = []" by (simp add: len)
    from that have "length ds \<noteq> 3" "length ds \<noteq> 4" "length ds \<noteq> 8" by simp_all
    from body [OF this] show ?thesis
      by (simp add: e py_int16_take2 [OF lhex] py_int16_empty bind_def split: sum.splits)
  qed
  have long: "color COLORS (Some (CHR ''#'' # ds)) opacity
              = Inr (channel (take 2 ds), channel (take 2 (drop 2 ds)),
                     channel (take 2 (drop 4 ds)), opacity)"
    if "length ds = 5 \<or> length ds = 7 \<or> 9 \<le> length ds"
  proof -
    from that have "5 \<le> length ls" by (auto simp: len)
    then have n: "ls \<noteq> []" "\<not> length ls \<le> 2" "\<not> length ls \<le> 4"
      by auto
    from that have "length ds \<noteq> 3" "length ds \<noteq> 4" "length ds \<noteq> 8" by auto
    from body [OF this] show ?thesis
      by (simp add: py_int16_take2 [OF lhex] py_int16_take2 [OF d2] py_int16_take2 [OF d4] n
          bind_Inr channel_def tk [symmetric])
  qed
  from short long show ?thesis by blast
qed

theorem color_hex_lengths_witness:
  "list_all ishex ''fffff'' \<and> Map.empty (lower ''#fffff'') = (None :: string option)
   \<and> color Map.empty (Some ''#ff'') 1 = Inl ValueError
   \<and> color Map.empty (Some ''#fffff'') 1 = Inr (1, 1, 1 / 17, 1)"
proof -
  have a: "list_all ishex ''fffff''" by code_simp
  have b: "list_all ishex ''ff''" by code_simp
  have c: "channel ''ff'' = 1" "channel ''f'' = 1 / 17"
    by (simp_all add: channel_def lower_def lower_char_def hex_val_def)
  from color_hex_lengths [OF b, of Map.empty 1] color_hex_lengths [OF a, of Map.empty 1] a c
  show ?thesis by simp
qed

text \<open>C9 as stated fails: the six characters \<^verbatim>\<open>#fffff\<close> are accepted, and the blue
  channel is read from the single digit left.\<close>

theorem color_accepts_length_6:
  "\<not> (\<forall>s. length s \<notin> {4, 5, 7, 9} \<and> s \<noteq> [] \<and> hd s = CHR ''#'' \<and> list_all ishex (tl s)
        \<longrightarrow> (\<exists>e. color Map.empty (Some s) 1 = Inl e))"
proof
  assume h: "\<forall>s. length s \<notin> {4, 5, 7, 9} \<and> s \<noteq> [] \<and> hd s = CHR ''#'' \<and> list_all ishex (tl s)
        \<longrightarrow> (\<exists>e. color Map.empty (Some s) 1 = Inl e)"
  have a: "list_all ishex (tl ''#fffff'')" by code_simp
  have v: "color Map.empty (Some ''#fffff'') 1 = Inr (1, 1, 1 / 17, 1)" by code_simp
  from h a have "\<exists>e. color Map.empty (Some ''#fffff'') 1 = Inl e" by force
  with v show False by simp
qed

subsection \<open>The path interpreter\<close>













text \<open>
  C2. The path \<^verbatim>\<open>M0,0 Q5,10 10,0\<close> draws no curve: after the move, the branch of
  \<^verbatim>\<open>Q\<close> splits what is left at the letter \<^verbatim>\<open>T\<close>, there is none, and the unpacking
  raises \<^verbatim>\<open>ValueError\<close>.
\<close>

theorem quadratic_without_smooth_raises:
  "path plain_surface 2 (path_node ''M0,0 Q5,10 10,0'') state0 = Some (Inl ValueError)"
  by code_simp

text \<open>When a \<^verbatim>\<open>T\<close> command follows, the quadratic curve is drawn as the cubic curve
  with the control points \<open>2/3 (5, 10) + 1/3 (0, 0)\<close> and \<open>2/3 (5, 10) + 1/3 (10, 0)\<close>.\<close>

lemma quadratic_with_smooth:
  "map_option (map_sum id trace)
     (path plain_surface 3 (path_node ''M0,0 Q5,10 10,0 T20,0'') state0)
   = Some (Inr [MoveTo 0 0, CurveTo (10 / 3) (20 / 3) (20 / 3) (20 / 3) 10 0,
        CurveTo (- (10 / 3)) (- (20 / 3)) (10 / 3) (- (20 / 3)) 20 0])"
  by code_simp

text \<open>
  C5. The path \<^verbatim>\<open>M0,0 X5,5\<close> raises no \<^verbatim>\<open>NotImplementedError\<close>: the word
  \<^verbatim>\<open>X5\<close> is not in \<^verbatim>\<open>PATH_LETTERS\<close>, so the letter \<^verbatim>\<open>M\<close> is kept and \<^verbatim>\<open>X5\<close>
  is read as its first operand, for which \<^verbatim>\<open>size\<close> returns \<^verbatim>\<open>None\<close>; the call
  \<^verbatim>\<open>move_to(None, 5.0)\<close> raises \<^verbatim>\<open>TypeError\<close>.
\<close>

theorem unknown_letter_is_an_operand:
  "path plain_surface 2 (path_node ''M0,0 X5,5'') state0 = Some (Inl TypeError)
   \<and> point ''X5 5'' = Inr (PyNone, Num 5, [])"
  by code_simp

subsection \<open>The discipline of \<^verbatim>\<open>save\<close> and \<^verbatim>\<open>restore\<close> in \<^verbatim>\<open>draw\<close>\<close>

text \<open>Every function called by \<^verbatim>\<open>draw\<close> is followed through the calls it adds to the
  trace: all of them return at the depth they were entered at, \<^verbatim>\<open>ellipse\<close> with a
  \<^verbatim>\<open>save\<close> and a \<^verbatim>\<open>restore\<close> of its own.\<close>

lemma bind_eq_Inr: "bind m f = Inr y \<longleftrightarrow> (\<exists>x. m = Inr x \<and> f x = Inr y)"
  by (cases m) (simp_all add: bind_def)

lemma depth_after_append:
  "depth_after d (a @ b) = (case depth_after d a of None \<Rightarrow> None | Some e \<Rightarrow> depth_after e b)"
  by (induction d a rule: depth_after.induct) (auto split: nat.splits)

lemma depth_after_shift:
  "depth_after d cs = Some e \<Longrightarrow> depth_after (d + j) cs = Some (e + j)"
  by (induction d cs rule: depth_after.induct) (auto split: nat.splits)

lemma moves_refl: "moves d d st st"
  by (simp add: moves_def)

lemma moves_trans: "moves d e st st1 \<Longrightarrow> moves e f st1 st2 \<Longrightarrow> moves d f st st2"
  by (auto simp: moves_def depth_after_append)

lemma moves_shift: "moves d e st st' \<Longrightarrow> moves (d + j) (e + j) st st'"
  by (auto simp: moves_def dest: depth_after_shift)

lemma moves_cursor: "moves d e st st' \<Longrightarrow> moves d e st (st'\<lparr>cursor_position := p\<rparr>)"
  by (simp add: moves_def)

lemma depth_after_plain: "plain c \<Longrightarrow> depth_after d [c] = Some d"
  by (cases c) (simp_all add: plain_def)

lemma call_plain: "call S c st = Inr st' \<Longrightarrow> plain c \<Longrightarrow> moves d d st st'"
  by (auto simp: call_def moves_def depth_after_plain split: if_splits)

lemma call_save: "call S Save st = Inr st' \<Longrightarrow> moves d (Suc d) st st'"
  by (auto simp: call_def moves_def split: if_splits)

lemma call_restore: "call S Restore st = Inr st' \<Longrightarrow> moves (Suc d) d st st'"
  by (auto simp: call_def moves_def split: if_splits)

lemma call2_plain:
  "call2 S c a b st = Inr st' \<Longrightarrow> (\<And>x y. plain (c x y)) \<Longrightarrow> moves d d st st'"
  by (auto simp: call2_def bind_eq_Inr intro: call_plain)

lemma call6_plain:
  "call6 S c a1 b1 a2 b2 a3 b3 st = Inr st' \<Longrightarrow> (\<And>x1 y1 x2 y2 x3 y3. plain (c x1 y1 x2 y2 x3 y3))
   \<Longrightarrow> moves d d st st'"
  by (auto simp: call6_def bind_eq_Inr intro: call_plain)

lemma plain_ops [simp]:
  "plain (MoveTo x y)" "plain (RelMoveTo x y)" "plain (LineTo x y)" "plain (RelLineTo x y)"
  "plain (CurveTo a b c d e f)" "plain (RelCurveTo a b c d e f)"
  "plain (Arc a b c d e)" "plain (ArcNegative a b c d e)" "plain ClosePath" "plain NewSubPath"
  "plain (Rectangle a b c d)" "plain (Translate x y)" "plain (Scale x y)" "plain (Rotate x)"
  "plain (SetMatrix a b c d e f)" "plain SetFillRuleEvenOdd" "plain (SetSourceRGBA a b c d)"
  "plain FillPreserve" "plain Stroke" "plain (SetLineWidth x)" "plain (SelectFontFace s t u)"
  "plain (SetFontSize x)" "plain (ShowText s)" "plain (TextPath s)"
  by (simp_all add: plain_def)

lemma call_eq_Inr:
  "call S c st = Inr st' \<longleftrightarrow> \<not> rejects S (trace st) c \<and> st' = st\<lparr>trace := trace st @ [c]\<rparr>"
  by (auto simp: call_def)

lemma call2_eq_Inr:
  "call2 S c a b st = Inr st' \<longleftrightarrow>
     (\<exists>x y. a = Num x \<and> b = Num y \<and> call S (c x y) st = Inr st')"
  by (cases a; cases b) (simp_all add: call2_def num_def bind_def)

lemma set_context_size_moves:
  "set_context_size S w h vb st = Inr st' \<Longrightarrow> moves d d st st'"
  unfolding set_context_size_def
  by (auto simp: bind_eq_Inr moves_def call_eq_Inr split: option.splits list.splits if_splits)

lemma matrix_op_plain: "matrix_op vs = Inr m \<Longrightarrow> plain m"
  by (auto simp: matrix_op_def split: if_splits list.splits)

lemma apply_transform_moves:
  "apply_transform S ttype vs st = Inr st' \<Longrightarrow> moves d d st st'"
  unfolding apply_transform_def
  by (auto simp: bind_eq_Inr call2_eq_Inr Let_def split: list.splits if_splits
      intro: call_plain dest: matrix_op_plain)

lemma transform_types_moves:
  "transform_types S ttypes t st = Inr st' \<Longrightarrow> moves d d st st'"
proof (induction S ttypes t st rule: transform_types.induct)
  case (1 S transformation st)
  then show ?case by (simp add: moves_refl)
next
  case (2 S ttype ttypes transformation st)
  show ?case
  proof (cases "contains transformation ttype")
    case True
    with "2.prems" obtain vs st1 where
      v: "transform_values (strip (normalize (replace ''('' [] (replace ttype [] transformation))) @ '' '')
            = Inr vs"
      and a: "apply_transform S ttype vs st = Inr st1"
      and r: "transform_types S ttypes [] st1 = Inr st'"
      by (auto simp: bind_eq_Inr Let_def)
    from "2.IH"(1) [OF True refl refl refl r] apply_transform_moves [OF a]
    show ?thesis by (blast intro: moves_trans)
  next
    case False
    with 2 show ?thesis by simp
  qed
qed

lemma transform_all_moves:
  "transform_all S ts st = Inr st' \<Longrightarrow> moves d d st st'"
proof (induction ts arbitrary: st)
  case Nil
  then show ?case by (simp add: moves_refl)
next
  case (Cons t ts)
  then show ?case
    by (auto simp: bind_eq_Inr simp del: transform_types.simps
        intro: moves_trans transform_types_moves)
qed

lemma transform_moves: "transform S n st = Inr st' \<Longrightarrow> moves d d st st'"
  by (auto simp: transform_def moves_refl intro: transform_all_moves split: if_splits)

lemma circle_moves: "circle S n st = Inr st' \<Longrightarrow> moves d d st st'"
  unfolding circle_def
  by (auto simp: bind_eq_Inr moves_def call_eq_Inr)

lemma ellipse_moves: "ellipse S n st = Inr st' \<Longrightarrow> moves d d st st'"
  unfolding ellipse_def
  by (auto simp: bind_eq_Inr moves_def call_eq_Inr split: if_splits)

lemma line_moves: "line S n st = Inr st' \<Longrightarrow> moves d d st st'"
  unfolding line_def
  by (auto simp: bind_eq_Inr moves_def call_eq_Inr call2_eq_Inr)

lemma rect_moves: "rect S n st = Inr st' \<Longrightarrow> moves d d st st'"
  unfolding rect_def
  by (auto simp: bind_eq_Inr moves_def call_eq_Inr)

lemma polyline_loop_moves: "polyline_loop S p st = Inr st' \<Longrightarrow> moves d d st st'"
proof (induction S p st rule: polyline_loop.induct)
  case (1 S points st)
  show ?case
  proof (cases "points = []")
    case True
    with "1.prems" show ?thesis by (simp add: polyline_loop.simps moves_refl)
  next
    case False
    with "1.prems" obtain x y r st1 where p: "point points = Inr (x, y, r)"
      and c: "call2 S LineTo x y st = Inr st1" and l: "polyline_loop S r st1 = Inr st'"
      by (subst (asm) polyline_loop.simps) (auto split: sum.splits)
    from "1.IH" [OF False p refl refl c l] call2_plain [OF c]
    show ?thesis by (auto intro: moves_trans)
  qed
qed

lemma polyline_moves: "polyline S n st = Inr st' \<Longrightarrow> moves d d st st'"
  unfolding polyline_def
  by (auto simp: bind_eq_Inr Let_def moves_refl split: option.splits if_splits
      intro: moves_trans [OF call2_plain polyline_loop_moves])

lemma polygon_moves: "polygon S n st = Inr st' \<Longrightarrow> moves d d st st'"
  unfolding polygon_def
  by (auto simp: bind_eq_Inr intro: moves_trans [OF polyline_moves call_plain])

lemma same_shape_refl [simp]: "same_shape n n"
  by (simp add: same_shape_def)

lemma same_shape_set [simp]:
  "same_shape n (set_attr k v m) = same_shape n m"
  "same_shape n (del_attr k m) = same_shape n m"
  "same_shape n (set_text t m) = same_shape n m"
  by (simp_all add: same_shape_def set_attr_def del_attr_def set_text_def)

lemma text_node_shape [simp]: "same_shape n (text_node n)"
  by (simp add: text_node_def Let_def)

lemma text_font_moves: "text_font S n st = Inr st' \<Longrightarrow> moves d d st st'"
  unfolding text_font_def
  by (auto simp: bind_eq_Inr moves_def call_eq_Inr)

lemma text_show_moves:
  "text_show E n x y st = Inr (n', st') \<Longrightarrow> moves d d st st' \<and> same_shape n n'"
  unfolding text_show_def
  by (auto simp: bind_eq_Inr moves_def call_eq_Inr call2_eq_Inr case_prod_beta)

lemma same_shape_trans: "same_shape a b \<Longrightarrow> same_shape b c \<Longrightarrow> same_shape a c"
  by (simp add: same_shape_def)

lemma text_at_moves:
  assumes "text_at E sx sy n st = Inr (n', st')"
  shows "moves d d st st' \<and> same_shape n n'"
proof -
  from assms obtain st1 x y where f: "text_font (surf E) (text_node n) st = Inr st1"
    and s: "text_show E (text_node n) x y st1 = Inr (n', st')"
    by (auto simp: text_at_def Let_def bind_eq_Inr case_prod_beta)
  from text_font_moves [OF f] text_show_moves [OF s] text_node_shape [of n]
  show ?thesis by (blast intro: moves_trans same_shape_trans)
qed

lemma text_handler_moves:
  "text_handler E n st = Inr (n', st') \<Longrightarrow> moves d d st st' \<and> same_shape n n'"
  unfolding text_handler_def by (rule text_at_moves)

lemma tspan_moves:
  "tspan E n st = Inr (n', st') \<Longrightarrow> moves d d st st' \<and> same_shape n n'"
  unfolding tspan_def
  by (auto simp: bind_eq_Inr case_prod_beta dest: text_at_moves)

lemma paint_moves: "paint E n st = Inr st' \<Longrightarrow> moves d d st st'"
  unfolding paint_def
  by (auto simp: bind_eq_Inr moves_def call_eq_Inr case_prod_beta split: if_splits)

lemma arc_call_plain: "arc_call rx rr rot large sweep dx dy = Inr c \<Longrightarrow> plain c"
  by (auto simp: arc_call_def Let_def case_prod_beta split: if_splits)

lemma path_arc_moves:
  assumes "path_arc S letter v st = Inr (v', st')"
  shows "moves d d st st'"
proof -
  from assms obtain c st1 st2 st3 st4 st5 x y r rr
    where s: "call S Save st = Inr st1"
      and t: "call S (Translate x y) st1 = Inr st2"
      and r: "call S (Rotate r) st2 = Inr st3"
      and sc: "call S (Scale 1 rr) st3 = Inr st4"
      and a: "call S c st4 = Inr st5" and p: "plain c"
      and re: "call S Restore st5 = Inr st'"
    unfolding path_arc_def
    by (auto simp: bind_eq_Inr case_prod_beta Let_def dest: arc_call_plain)
  have "moves d (Suc d) st st1" by (rule call_save [OF s])
  moreover have "moves (Suc d) (Suc d) st1 st5"
    using call_plain [OF t] call_plain [OF r] call_plain [OF sc] call_plain [OF a p]
    by (blast intro: moves_trans plain_ops)
  moreover have "moves (Suc d) d st5 st'" by (rule call_restore [OF re])
  ultimately show ?thesis by (blast intro: moves_trans)
qed

lemma quadratic_curve_moves:
  "quadratic_curve S c x1 y1 x2 y2 x3 y3 st = Inr st' \<Longrightarrow>
   (\<And>a b c' d' e f. plain (c a b c' d' e f)) \<Longrightarrow> moves d d st st'"
  unfolding quadratic_curve_def
  by (auto simp: bind_eq_Inr quadratic_points_def Let_def intro: call_plain)

lemma quadratic_loop_moves:
  "quadratic_loop S c x1 y1 s v st = Inr (v', st') \<Longrightarrow>
   (\<And>a b c' d' e f. plain (c a b c' d' e f)) \<Longrightarrow> moves d d st st'"
proof (induction S c x1 y1 s v st rule: quadratic_loop.induct)
  case (1 S c x1 y1 string v st)
  show ?case
  proof (cases "string = []")
    case True
    with "1.prems" show ?thesis by (simp add: quadratic_loop.simps moves_refl)
  next
    case False
    with "1.prems"(1) obtain x2 y2 s2 x3 y3 s3 st1 where p: "point string = Inr (x2, y2, s2)"
      and q: "point s2 = Inr (x3, y3, s3)"
      and c: "quadratic_curve S c x1 y1 x2 y2 x3 y3 st = Inr st1"
      and l: "quadratic_loop S c x1 y1 s3
                (v\<lparr>var_x2 := Some x2, var_y2 := Some y2, var_x3 := Some x3, var_y3 := Some y3\<rparr>) st1
              = Inr (v', st')"
      by (subst (asm) quadratic_loop.simps) (auto split: sum.splits)
    from "1.IH" [OF False p refl refl q refl refl c l "1.prems"(2)]
      quadratic_curve_moves [OF c "1.prems"(2)]
    show ?thesis by (blast intro: moves_trans)
  qed
qed

lemma path_curve_moves:
  "path_curve S c v st = Inr (v', st') \<Longrightarrow>
   (\<And>a b c' d' e f. plain (c a b c' d' e f)) \<Longrightarrow> moves d d st st'"
  unfolding path_curve_def
  by (auto simp: bind_eq_Inr case_prod_beta intro: call6_plain)

lemma path_axis_moves:
  "path_axis S h r v st = Inr (v', st') \<Longrightarrow> moves d d st st'"
  unfolding path_axis_def
  by (auto simp: bind_eq_Inr case_prod_beta Let_def split: option.splits if_splits
      intro: call2_plain)

lemma path_to_moves:
  "path_to S c v st = Inr (v', st') \<Longrightarrow> (\<And>x y. plain (c x y)) \<Longrightarrow> moves d d st st'"
  unfolding path_to_def
  by (auto simp: bind_eq_Inr case_prod_beta intro: call2_plain)

lemma path_quadratic_moves:
  "path_quadratic S r v st = Inr (v', st') \<Longrightarrow> moves d d st st'"
  unfolding path_quadratic_def
  by (auto simp: bind_eq_Inr case_prod_beta Let_def split: option.splits if_splits
      intro: quadratic_loop_moves)

lemma path_smooth_moves:
  "path_smooth S r v st = Inr (v', st') \<Longrightarrow> moves d d st st'"
  unfolding path_smooth_def
  by (auto simp: bind_eq_Inr case_prod_beta Let_def split: if_splits intro: call6_plain)

lemma path_smooth_quadratic_moves:
  "path_smooth_quadratic S r v st = Inr (v', st') \<Longrightarrow> moves d d st st'"
  unfolding path_smooth_quadratic_def
  by (auto simp: bind_eq_Inr case_prod_beta Let_def split: if_splits
      intro: quadratic_curve_moves)

lemma path_branch_moves:
  "path_branch S letter v st = Inr (v', st') \<Longrightarrow> moves d d st st'"
  unfolding path_branch_def
  by (auto simp: bind_eq_Inr split: if_splits
      intro: path_arc_moves path_curve_moves path_axis_moves path_to_moves path_quadratic_moves
        path_smooth_moves path_smooth_quadratic_moves call_plain)

lemma path_step_moves:
  "path_step S v st = Inr (v', st') \<Longrightarrow> moves d d st st'"
  unfolding path_step_def
  by (auto simp: bind_eq_Inr case_prod_beta Let_def intro: path_branch_moves)

lemma path_loop_moves:
  "path_loop S fuel v st = Some (Inr st') \<Longrightarrow> moves d d st st'"
proof (induction fuel arbitrary: v st)
  case 0
  then show ?case by (auto simp: moves_refl split: if_splits)
next
  case (Suc fuel)
  show ?case
  proof (cases "var_string v = []")
    case True
    with Suc.prems show ?thesis by (simp add: moves_refl)
  next
    case False
    with Suc.prems obtain v1 st1 where s: "path_step S v st = Inr (v1, st1)"
      and l: "path_loop S fuel v1 st1 = Some (Inr st')"
      by (auto split: sum.splits)
    from path_step_moves [OF s] Suc.IH [OF l] show ?thesis by (blast intro: moves_trans)
  qed
qed

lemma path_moves: "path S fuel n st = Some (Inr st') \<Longrightarrow> moves d d st st'"
  unfolding path_def by (rule path_loop_moves)

lemma draw_enter_moves:
  assumes "draw_enter S n st = Inr (n1, st1)"
  shows "moves d (Suc d) st st1" and "same_shape n n1" and "\<exists>cs. trace st1 = trace st @ Save # cs"
proof -
  from assms obtain st2 x y st3 where s: "call S Save st = Inr st2"
    and m: "call2 S MoveTo x y st2 = Inr st3" and t: "transform S n st3 = Inr st1"
    and n1: "n1 = (if tag n \<in> set PATH_TAGS \<and> \<not> truthy (attrs n ''stroke-width'')
            then set_attr ''stroke-width'' ''1'' n else n)"
    unfolding draw_enter_def by (auto simp: bind_eq_Inr)
  have a: "moves (Suc d) (Suc d) st2 st1" for d
    using call2_plain [OF m] transform_moves [OF t] by (blast intro: moves_trans plain_ops)
  with call_save [OF s] show "moves d (Suc d) st st1" by (blast intro: moves_trans)
  from n1 show "same_shape n n1" by simp
  from a [of 0] obtain cs where "trace st1 = trace st2 @ cs" by (auto simp: moves_def)
  with s show "\<exists>cs. trace st1 = trace st @ Save # cs" by (auto simp: call_eq_Inr)
qed

lemma use_enter_moves:
  assumes "use_enter E n st = Inr (tree, n1, st1)"
  shows "moves d (Suc d) st st1" and "same_shape n n1" and "\<exists>href p. Tree E href p = Inr tree"
proof -
  from assms obtain st2 x y st3 w h vb where s: "call (surf E) Save st = Inr st2"
    and m: "call2 (surf E) Translate x y st2 = Inr st3"
    and n1: "n1 = del_attr ''viewBox'' (del_attr ''y'' (del_attr ''x'' n))"
    and t: "Tree E (attrs n1 ''{http://www.w3.org/1999/xlink}href'') n1 = Inr tree"
    and c: "set_context_size (surf E) w h vb st3 = Inr st1"
    unfolding use_enter_def by (auto simp: bind_eq_Inr Let_def case_prod_beta)
  have "moves (Suc d) (Suc d) st2 st1"
    using call2_plain [OF m] set_context_size_moves [OF c] by (blast intro: moves_trans plain_ops)
  with call_save [OF s] show "moves d (Suc d) st st1" by (blast intro: moves_trans)
  from n1 show "same_shape n n1" by simp
  from t show "\<exists>href p. Tree E href p = Inr tree" by blast
qed

lemma use_leave_moves: "use_leave S st = Inr st' \<Longrightarrow> moves (Suc (Suc d)) d st st'"
  unfolding use_leave_def
  by (auto simp: bind_eq_Inr intro: moves_trans [OF call_restore call_restore])

lemma shape_moves:
  assumes "shape E fuel n st = Some (Inr (n', st'))"
  shows "moves d d st st' \<and> same_shape n n'"
  using assms unfolding shape_def Let_def
  by (auto simp: bind_eq_Inr moves_refl split: if_splits
      dest: circle_moves ellipse_moves path_moves line_moves polyline_moves polygon_moves
        rect_moves tspan_moves text_handler_moves)

lemma rootless_below_children:
  "rootless_below n = list_all (\<lambda>c. \<not> root c \<and> rootless_below c) (children n)"
  by (cases n) simp

lemma same_shape_rootless: "same_shape n n' \<Longrightarrow> rootless_below n' = rootless_below n"
  by (simp add: rootless_below_children [of n] rootless_below_children [of n'] same_shape_def)

lemma draw_Suc_Inr:
  assumes "draw E fuel (Suc depth) n st = Some (Inr st')" and "tag n \<noteq> ''defs''"
  obtains n1 st1 n2 st2 st3 st4 where "draw_enter (surf E) n st = Inr (n1, st1)"
    and "handler E fuel depth n1 st1 = Some (Inr (n2, st2))"
    and "paint E n2 st2 = Inr st3"
    and "draw_children E fuel depth (children n2) st3 = Some (Inr st4)"
    and "if root n2 then st' = st4 else call (surf E) Restore st4 = Inr st'"
  using assms
  by (auto simp del: handler.simps split: sum.splits option.splits prod.splits if_splits)

lemma draw_tag_never_returns:
  "tag n = ''draw'' \<Longrightarrow> draw E fuel depth n st \<noteq> Some (Inr st')"
proof (induction depth arbitrary: n st st')
  case 0
  then show ?case by simp
next
  case (Suc depth)
  show ?case
  proof
    assume r: "draw E fuel (Suc depth) n st = Some (Inr st')"
    from Suc.prems have nd: "tag n \<noteq> ''defs''" by simp
    from r nd obtain n1 st1 n2 st2 where e: "draw_enter (surf E) n st = Inr (n1, st1)"
      and h: "handler E fuel depth n1 st1 = Some (Inr (n2, st2))"
      by (rule draw_Suc_Inr)
    from draw_enter_moves(2) [OF e] Suc.prems have t: "tag n1 = ''draw''"
      by (simp add: same_shape_def)
    with h obtain st3 where "draw E fuel depth n1 st1 = Some (Inr st3)"
      by (auto split: sum.splits option.splits)
    with Suc.IH [OF t] show False by blast
  qed
qed

lemma draw_okD:
  "draw_ok E fuel depth \<Longrightarrow> draw E fuel depth n st = Some (Inr st') \<Longrightarrow> rootless_below n
   \<Longrightarrow> moves d (rise n d) st st'"
  unfolding draw_ok_def by blast

lemma handler_moves:
  assumes ok: "draw_ok E fuel depth" and tr: "trees_are_roots E"
    and h: "handler E fuel depth n st = Some (Inr (n', st'))"
  shows "moves d d st st' \<and> same_shape n n'"
proof (cases "tag n = ''use'' \<or> tag n = ''tref''")
  case True
  with h obtain tree st1 st2 where e: "use_enter E n st = Inr (tree, n', st1)"
    and dr: "draw E fuel depth tree st1 = Some (Inr st2)"
    and l: "use_leave (surf E) st2 = Inr st'"
    by (auto simp: bind_eq_Inr split: sum.splits option.splits prod.splits)
  from use_enter_moves(3) [OF e] tr have t: "root tree" "tag tree \<noteq> ''defs''" "rootless_below tree"
    by (auto simp: trees_are_roots_def)
  from draw_okD [OF ok dr t(3), of "Suc d"] t have "moves (Suc d) (Suc (Suc d)) st1 st2"
    by (simp add: rise_def)
  with use_enter_moves(1) [OF e] use_leave_moves [OF l] have "moves d d st st'"
    by (blast intro: moves_trans)
  with use_enter_moves(2) [OF e] show ?thesis by simp
next
  case False
  show ?thesis
  proof (cases "tag n = ''draw''")
    case True
    with False h obtain st1 where "draw E fuel depth n st = Some (Inr st1)"
      by (auto split: sum.splits option.splits)
    with draw_tag_never_returns [OF True] show ?thesis by blast
  next
    case nd: False
    with False h have "shape E fuel n st = Some (Inr (n', st'))" by simp
    then show ?thesis by (rule shape_moves)
  qed
qed

lemma draw_children_moves:
  assumes ok: "draw_ok E fuel depth"
  shows "draw_children E fuel depth cs st = Some (Inr st') \<Longrightarrow>
         list_all (\<lambda>c. \<not> root c \<and> rootless_below c) cs \<Longrightarrow> moves d d st st'"
proof (induction cs arbitrary: st)
  case Nil
  then show ?case by (simp add: moves_refl)
next
  case (Cons c cs)
  from Cons.prems(1) obtain st1 where a: "draw E fuel depth c st = Some (Inr st1)"
    and b: "draw_children E fuel depth cs st1 = Some (Inr st')"
    by (auto split: sum.splits option.splits)
  from Cons.prems(2) have c: "\<not> root c" "rootless_below c"
    and cs: "list_all (\<lambda>c. \<not> root c \<and> rootless_below c) cs" by simp_all
  from draw_okD [OF ok a c(2), of d] c have "moves d d st st1" by (simp add: rise_def)
  with Cons.IH [OF b cs] show ?case by (blast intro: moves_trans)
qed

lemma draw_ok_all:
  assumes tr: "trees_are_roots E"
  shows "draw_ok E fuel depth"
proof (induction depth)
  case 0
  then show ?case by (simp add: draw_ok_def)
next
  case (Suc depth)
  show ?case
    unfolding draw_ok_def
  proof (intro allI impI)
    fix n st st' d
    assume r: "draw E fuel (Suc depth) n st = Some (Inr st')" and rl: "rootless_below n"
    show "moves d (rise n d) st st'"
    proof (cases "tag n = ''defs''")
      case True
      with r show ?thesis by (simp add: rise_def moves_refl)
    next
      case False
      with r obtain n1 st1 n2 st2 st3 st4 where e: "draw_enter (surf E) n st = Inr (n1, st1)"
        and h: "handler E fuel depth n1 st1 = Some (Inr (n2, st2))"
        and p: "paint E n2 st2 = Inr st3"
        and c: "draw_children E fuel depth (children n2) st3 = Some (Inr st4)"
        and f: "if root n2 then st' = st4 else call (surf E) Restore st4 = Inr st'"
        by (rule draw_Suc_Inr)
      from handler_moves [OF Suc tr h] have h': "moves (Suc d) (Suc d) st1 st2"
        and s2: "same_shape n1 n2" by simp_all
      from draw_enter_moves(2) [OF e] s2 have s: "same_shape n n2" by (rule same_shape_trans)
      with rl have "rootless_below n2" by (simp add: same_shape_rootless)
      then have "list_all (\<lambda>c. \<not> root c \<and> rootless_below c) (children n2)"
        by (simp add: rootless_below_children [of n2])
      from draw_children_moves [OF Suc c this] have c': "moves (Suc d) (Suc d) st3 st4" .
      from draw_enter_moves(1) [OF e] h' paint_moves [OF p] c'
      have m: "moves d (Suc d) st st4" by (blast intro: moves_trans)
      show ?thesis
      proof (cases "root n2")
        case True
        with f m s False show ?thesis by (simp add: rise_def same_shape_def)
      next
        case nr: False
        with f have "call (surf E) Restore st4 = Inr st'" by simp
        from m call_restore [OF this] have "moves d d st st'" by (rule moves_trans)
        with nr s show ?thesis by (simp add: rise_def same_shape_def)
      qed
    qed
  qed
qed

lemma moves_extends: "moves d e st st' \<Longrightarrow> \<exists>cs. trace st' = trace st @ cs"
  by (auto simp: moves_def)

text \<open>When \<^verbatim>\<open>draw(n)\<close> returns, the calls it has added to the context are: none if
  \<open>n\<close> is a \<^verbatim>\<open>defs\<close> element; otherwise a \<^verbatim>\<open>save\<close> followed by calls that never
  restore below the depth at entry and end one level above it if \<open>n\<close> is flagged as
  root, and at it, the last call being \<^verbatim>\<open>restore\<close>, if not. This holds when no node
  below \<open>n\<close> is flagged as root and every tree built for a \<^verbatim>\<open>use\<close> or \<^verbatim>\<open>tref\<close>
  element is flagged as root, is not a \<^verbatim>\<open>defs\<close> element and has no root below it.\<close>

lemma draw_balanced:
  assumes r: "draw E fuel depth n st = Some (Inr st')"
    and rl: "rootless_below n" and tr: "trees_are_roots E"
  shows "if tag n = ''defs'' then st' = st
         else \<exists>cs. trace st' = trace st @ Save # cs
                \<and> depth_after 0 (Save # cs) = Some (if root n then 1 else 0)
                \<and> (\<not> root n \<longrightarrow> cs \<noteq> [] \<and> last cs = Restore)"
proof (cases depth)
  case 0
  with r show ?thesis by simp
next
  case (Suc k)
  show ?thesis
  proof (cases "tag n = ''defs''")
    case True
    with r Suc show ?thesis by simp
  next
    case False
    from r Suc have r': "draw E fuel (Suc k) n st = Some (Inr st')" by simp
    from r' False obtain n1 st1 n2 st2 st3 st4 where e: "draw_enter (surf E) n st = Inr (n1, st1)"
      and h: "handler E fuel k n1 st1 = Some (Inr (n2, st2))"
      and p: "paint E n2 st2 = Inr st3"
      and c: "draw_children E fuel k (children n2) st3 = Some (Inr st4)"
      and f: "if root n2 then st' = st4 else call (surf E) Restore st4 = Inr st'"
      by (rule draw_Suc_Inr)
    have ok: "draw_ok E fuel j" for j using tr by (rule draw_ok_all)
    from handler_moves [OF ok tr h] have h': "moves 0 0 st1 st2" and s2: "same_shape n1 n2"
      by simp_all
    from draw_enter_moves(2) [OF e] s2 have s: "same_shape n n2" by (rule same_shape_trans)
    with rl have "rootless_below n2" by (simp add: same_shape_rootless)
    then have "list_all (\<lambda>c. \<not> root c \<and> rootless_below c) (children n2)"
      by (simp add: rootless_below_children [of n2])
    from draw_children_moves [OF ok c this] have c': "moves 0 0 st3 st4" .
    from h' paint_moves [OF p] c' have "moves 0 0 st1 st4" by (blast intro: moves_trans)
    then obtain c2 where c2: "trace st4 = trace st1 @ c2" by (auto dest: moves_extends)
    from draw_enter_moves(3) [OF e] obtain c1 where c1: "trace st1 = trace st @ Save # c1" by blast
    from draw_okD [OF ok r rl, of 0] obtain cs0 where cs0: "trace st' = trace st @ cs0"
      and d: "depth_after 0 cs0 = Some (rise n 0)" by (auto simp: moves_def)
    show ?thesis
    proof (cases "root n2")
      case True
      with f c1 c2 cs0 have "cs0 = Save # c1 @ c2" by simp
      with cs0 d True s False show ?thesis by (auto simp: rise_def same_shape_def)
    next
      case nr: False
      with f have "trace st' = trace st4 @ [Restore]" by (auto simp: call_eq_Inr)
      with c1 c2 cs0 have "cs0 = Save # (c1 @ c2 @ [Restore])" by simp
      with cs0 d nr s False show ?thesis by (auto simp: rise_def same_shape_def)
    qed
  qed
qed

text \<open>A \<^verbatim>\<open>use\<close> element that refers to an empty \<^verbatim>\<open>svg\<close> element: the frame of
  \<^verbatim>\<open>use\<close> holds the frame of the referenced root, which is closed by the second
  \<^verbatim>\<open>restore\<close> of \<^verbatim>\<open>use\<close>.\<close>

lemma draw_balanced_example:
  "draw (env_of referenced) 0 2 use_node state0
     = Some (Inr \<lparr>trace =
          [Save, MoveTo 0 0, Save, Translate 0 0, Save, MoveTo 0 0,
           SetSourceRGBA 0 0 0 0, FillPreserve, SetLineWidth 0,
           SetSourceRGBA 0 0 0 0, Stroke, Restore, Restore,
           SetSourceRGBA 0 0 0 0, FillPreserve, SetLineWidth 0,
           SetSourceRGBA 0 0 0 0, Stroke, Restore],
          cursor_position = (0, 0)\<rparr>)
   \<and> rootless_below use_node \<and> trees_are_roots (env_of referenced)
   \<and> tag use_node \<noteq> ''defs'' \<and> \<not> root use_node
   \<and> (\<exists>cs. [Save, MoveTo 0 0, Save, Translate 0 0, Save, MoveTo 0 0,
           SetSourceRGBA 0 0 0 0, FillPreserve, SetLineWidth 0,
           SetSourceRGBA 0 0 0 0, Stroke, Restore, Restore,
           SetSourceRGBA 0 0 0 0, FillPreserve, SetLineWidth 0,
           SetSourceRGBA 0 0 0 0, Stroke, Restore] = Save # cs
        \<and> depth_after 0 (Save # cs) = Some 0 \<and> cs \<noteq> [] \<and> last cs = Restore)"
proof -
  have r: "draw (env_of referenced) 0 2 use_node state0
     = Some (Inr \<lparr>trace =
          [Save, MoveTo 0 0, Save, Translate 0 0, Save, MoveTo 0 0,
           SetSourceRGBA 0 0 0 0, FillPreserve, SetLineWidth 0,
           SetSourceRGBA 0 0 0 0, Stroke, Restore, Restore,
           SetSourceRGBA 0 0 0 0, FillPreserve, SetLineWidth 0,
           SetSourceRGBA 0 0 0 0, Stroke, Restore],
          cursor_position = (0, 0)\<rparr>)"
    by code_simp
  have rl: "rootless_below use_node" by (simp add: use_node_def)
  have tr: "trees_are_roots (env_of referenced)"
    by (simp add: trees_are_roots_def env_of_def referenced_def)
  have t: "tag use_node \<noteq> ''defs''" "\<not> root use_node" by (simp_all add: use_node_def)
  from draw_balanced [OF r rl tr] t r rl tr show ?thesis by (simp add: state0_def)
qed

text \<open>
  C8. The calls of \<^verbatim>\<open>save\<close> and \<^verbatim>\<open>restore\<close> that \<^verbatim>\<open>draw\<close> makes for a node are not
  balanced when the node is a \<^verbatim>\<open>use\<close> element whose reference is built as a \<^verbatim>\<open>defs\<close>
  element: \<^verbatim>\<open>draw\<close> returns at once for the referenced tree, before its \<^verbatim>\<open>save\<close>,
  \<^verbatim>\<open>use\<close> restores twice all the same, and \<^verbatim>\<open>draw\<close> restores once more. Two calls of
  \<^verbatim>\<open>save\<close> are followed by three of \<^verbatim>\<open>restore\<close>, the last of them below the depth at
  entry, for a node that is not flagged as root.
\<close>

theorem use_of_defs_unbalanced:
  "map_option (map_sum id trace) (draw (env_of referenced_defs) 0 2 use_node state0)
     = Some (Inr [Save, MoveTo 0 0, Save, Translate 0 0, Restore, Restore,
          SetSourceRGBA 0 0 0 0, FillPreserve, SetLineWidth 0,
          SetSourceRGBA 0 0 0 0, Stroke, Restore])
   \<and> depth_after 0 [Save, MoveTo 0 0, Save, Translate 0 0, Restore, Restore,
          SetSourceRGBA 0 0 0 0, FillPreserve, SetLineWidth 0,
          SetSourceRGBA 0 0 0 0, Stroke, Restore] = None
   \<and> \<not> root use_node \<and> tag use_node \<noteq> ''defs''"
  by code_simp

subsection \<open>A path that does not start with a letter\<close>

text \<open>The first word of \<^verbatim>\<open>X5,5\<close> is no path letter, so the first round runs with the
  letter \<^verbatim>\<open>Z\<close>: \<^verbatim>\<open>close_path()\<close> is called and nothing is consumed, round after
  round.\<close>

lemma path_without_first_letter:
  "var_letter (path_start ''X5,5'') = Some ''Z''
   \<and> var_string (path_start ''X5,5'') = ''X5 5''
   \<and> path plain_surface 3 (path_node ''X5,5'') state0 = None
   \<and> map_sum id (\<lambda>(v, st). (var_string v, var_letter v, trace st))
         (path_step plain_surface (path_start ''X5,5'') state0)
       = Inr (''X5 5'', Some ''Z'', [ClosePath])"
  by code_simp

end
